theory Spec2Isabelle
  imports Complex_Main "HOL-Library.AList" "HOL-Library.Char_ord" "HOL-Library.List_Lexorder"
    "HOL-Library.Product_Lexorder" "HOL-Library.Multiset"
begin

section \<open>Usage accounting of \<open>claude_usage.py\<close>\<close>

text \<open>
  The development embeds the analyzer class \<open>ClaudeUsageAnalyzer\<close> of
  \<open>src/claude_usage.py\<close> (batch aggregation) and of \<open>src/build/lib/claude_usage.py\<close>
  (live monitoring, which the former file lacks).

  Conventions of the embedding.
  \<^item> Dollar amounts and per-token rates are Python floats in the source; they are exact
    rationals (\<^typ>\<open>rat\<close>) here. Token counts are Python integers (\<^typ>\<open>int\<close>).
  \<^item> A naive \<open>datetime\<close> is the integer number of microseconds it lies after a fixed
    origin; a \<open>timedelta\<close> is a difference of such integers.
  \<^item> A Python \<open>dict\<close> keeps insertion order, so a dictionary whose order or size matters
    is an association list maintained with \<^const>\<open>AList.update\<close>; a read-only table is
    a map.
  \<^item> A decoded JSON line is a record with one field per key the code reads; an absent
    key and a \<open>null\<close> value are distinct constructors where the code tells them apart.
\<close>

subsection \<open>Price table and token cost\<close>

text \<open>The four rates of one model, each \<open>None\<close> when the table has no rate for it.\<close>

record pricing =
  input_cost_per_token :: "rat option"
  output_cost_per_token :: "rat option"
  cache_creation_input_token_cost :: "rat option"
  cache_read_input_token_cost :: "rat option"

text \<open>The dictionary \<open>current_usage\<close>: the four token counts of one log entry.\<close>

record usage =
  input_tokens :: int
  output_tokens :: int
  cache_creation_input_tokens :: int
  cache_read_input_tokens :: int

type_synonym pricing_table = "string \<rightharpoonup> pricing"

text \<open>The table returned when the download fails (\<open>get_pricing_data\<close>, except branch).\<close>

definition fallback_pricing :: pricing_table where
  "fallback_pricing =
     [''claude-sonnet-4-20250514'' \<mapsto>
        \<lparr>input_cost_per_token = Some (3 / 1000000), output_cost_per_token = Some (15 / 1000000),
         cache_creation_input_token_cost = None, cache_read_input_token_cost = None\<rparr>,
      ''claude-opus-4-20250514'' \<mapsto>
        \<lparr>input_cost_per_token = Some (15 / 1000000), output_cost_per_token = Some (75 / 1000000),
         cache_creation_input_token_cost = None, cache_read_input_token_cost = None\<rparr>]"

text \<open>
  \<open>get_pricing_data\<close>: the argument is the outcome of the download, \<open>None\<close> when it
  raises and otherwise the decoded table, of which only the models whose name starts
  with \<open>claude-\<close> are kept.
\<close>

definition get_pricing_data :: "pricing_table option \<Rightarrow> pricing_table" where
  "get_pricing_data response =
     (case response of
        None \<Rightarrow> fallback_pricing
      | Some all_pricing \<Rightarrow>
          (\<lambda>model_name. if take 7 model_name = ''claude-'' then all_pricing model_name else None))"

text \<open>
  One \<open>if pricing.get(k) and tokens.get(k, 0): cost += tokens[k] * pricing[k]\<close> of
  \<open>calculate_cost_from_tokens\<close>: a rate that is missing or zero, and a zero count, leave
  the cost as it is.
\<close>

definition add_token_cost :: "rat option \<Rightarrow> int \<Rightarrow> rat \<Rightarrow> rat" where
  "add_token_cost rate n cost =
     (case rate of
        None \<Rightarrow> cost
      | Some r \<Rightarrow> if r \<noteq> 0 \<and> n \<noteq> 0 then cost + of_int n * r else cost)"

definition calculate_cost_from_tokens :: "pricing_table \<Rightarrow> usage \<Rightarrow> string \<Rightarrow> rat" where
  "calculate_cost_from_tokens pricing_data tokens model_name =
     (case pricing_data model_name of
        None \<Rightarrow> 0
      | Some pricing \<Rightarrow>
          add_token_cost (cache_read_input_token_cost pricing) (cache_read_input_tokens tokens)
            (add_token_cost (cache_creation_input_token_cost pricing)
               (cache_creation_input_tokens tokens)
               (add_token_cost (output_cost_per_token pricing) (output_tokens tokens)
                  (add_token_cost (input_cost_per_token pricing) (input_tokens tokens) 0))))"

subsection \<open>Log entries\<close>

text \<open>The key \<open>costUSD\<close> of an entry: absent, \<open>null\<close>, or a number.\<close>

datatype cost_field = Cost_absent | Cost_null | Cost rat

text \<open>
  The key \<open>timestamp\<close> of an entry: absent, a value that is no string (on which
  \<open>endswith\<close> raises \<open>AttributeError\<close>), a string that \<open>datetime.fromisoformat\<close>
  rejects with \<open>ValueError\<close>, or a string that parses. A parsed timestamp carries the
  naive datetime left by \<open>replace(tzinfo=None)\<close> and the day \<open>YYYY-MM-DD\<close> that
  \<open>strftime\<close> prints for it in the local time zone.
\<close>

datatype timestamp_field =
  Timestamp_absent | Timestamp_not_text | Timestamp_malformed | Timestamp int string

text \<open>
  The usage of an entry, as the test \<open>'message' in data and 'usage' in data['message']\<close>
  and the later \<open>usage.get\<close> see it:
  \<^item> \<open>Usage_absent\<close>: there is no \<open>message\<close>, or the message has no \<open>usage\<close>; the test
    is false;
  \<^item> \<open>Message_not_object\<close>: the message is \<open>null\<close>, a number or a boolean, on which
    \<open>in\<close> raises \<open>TypeError\<close>;
  \<^item> \<open>Usage_not_object\<close>: the message is an object whose \<open>usage\<close> is \<open>null\<close> or no
    object; the test is true and \<open>usage.get\<close> raises \<open>AttributeError\<close>;
  \<^item> \<open>Usage u\<close>: the message is an object whose \<open>usage\<close> is an object with the counts
    \<open>u\<close> (a missing count is 0).
\<close>

datatype usage_field = Usage_absent | Message_not_object | Usage_not_object | Usage usage

text \<open>
  A line that decodes to a JSON object; \<open>msg_id\<close>, \<open>requestId\<close> and \<open>msg_model\<close> are
  \<open>None\<close> when the key is absent or \<open>null\<close>.
\<close>

record entry =
  timestamp :: timestamp_field
  msg_id :: "string option"
  requestId :: "string option"
  msg_usage :: usage_field
  msg_model :: "string option"
  costUSD :: cost_field

text \<open>
  \<open>calculate_entry_cost\<close>. The mode is the string \<open>self.cost_mode\<close>; any mode other than
  \<open>display\<close> and \<open>calculate\<close> takes the last branch. \<open>current_usage\<close> is the four-key
  dictionary built by the caller, which Python takes as true; \<open>current_model\<close> is true
  when it is a non-empty string.
\<close>

definition calculate_entry_cost ::
  "pricing_table \<Rightarrow> string \<Rightarrow> entry \<Rightarrow> usage \<Rightarrow> string option \<Rightarrow> rat" where
  "calculate_entry_cost pricing_data cost_mode data current_usage current_model =
     (if cost_mode = ''display'' then
        (case costUSD data of Cost c \<Rightarrow> (if c \<noteq> 0 then c else 0) | _ \<Rightarrow> 0)
      else if cost_mode = ''calculate'' then
        (case current_model of
           Some m \<Rightarrow> if m \<noteq> [] then calculate_cost_from_tokens pricing_data current_usage m else 0
         | None \<Rightarrow> 0)
      else
        (case costUSD data of
           Cost c \<Rightarrow> c
         | _ \<Rightarrow>
           (case current_model of
              Some m \<Rightarrow>
                if m \<noteq> [] then calculate_cost_from_tokens pricing_data current_usage m else 0
            | None \<Rightarrow> 0)))"

subsection \<open>The deduplication window\<close>

text \<open>
  \<open>create_unique_hash\<close>: the fingerprint \<open>messageId:requestId\<close>, or \<open>None\<close> when either
  identifier is missing.
\<close>

definition create_unique_hash :: "entry \<Rightarrow> string option" where
  "create_unique_hash data =
     (case msg_id data of
        None \<Rightarrow> None
      | Some message_id \<Rightarrow>
          (case requestId data of
             None \<Rightarrow> None
           | Some request_id \<Rightarrow> Some (message_id @ '':'' @ request_id)))"

text \<open>
  The first parse of the timestamp in \<open>process_files_with_global_dedup\<close>, inside
  \<open>try ... except Exception: pass\<close>: every failure leaves \<open>current_timestamp = None\<close>.
\<close>

definition current_timestamp_of :: "entry \<Rightarrow> int option" where
  "current_timestamp_of data =
     (case timestamp data of Timestamp t day \<Rightarrow> Some t | _ \<Rightarrow> None)"

definition dedup_window_hours :: int where
  "dedup_window_hours = 24"

definition dedup_cleanup_threshold :: nat where
  "dedup_cleanup_threshold = 10000"

text \<open>\<open>timedelta(hours=n)\<close> in microseconds.\<close>

definition timedelta_hours :: "int \<Rightarrow> int" where
  "timedelta_hours n = n * 3600000000"

text \<open>
  The dictionary of one session in \<open>sessions_by_dir\<close>. The keys \<open>input_tokens\<close> and
  \<open>output_tokens\<close> of the source are \<open>sum_input_tokens\<close> and \<open>sum_output_tokens\<close> here and
  the key \<open>session_dir\<close> is \<open>own_session_dir\<close>.
\<close>

record session_path =
  path_parent :: string
  path_name :: string

record session_data =
  total_cost :: rat
  sum_input_tokens :: int
  sum_output_tokens :: int
  cache_creation_tokens :: int
  cache_read_tokens :: int
  last_activity :: "string option"
  models_used :: "string set"
  own_session_dir :: "session_path option"

text \<open>The mutable variables of \<open>process_files_with_global_dedup\<close>.\<close>

record state =
  global_processed_hashes :: "string set"
  hash_timestamps :: "(string \<times> int) list"
  sessions_by_dir :: "(session_path \<times> session_data) list"
  session_count :: int
  total_entries_processed :: nat
  total_entries_skipped :: nat

definition initial_state :: state where
  "initial_state =
     \<lparr>global_processed_hashes = {}, hash_timestamps = [], sessions_by_dir = [],
      session_count = 0, total_entries_processed = 0, total_entries_skipped = 0\<rparr>"

text \<open>
  The flag \<open>skip_duplicate\<close> (source lines 382 to 390). \<open>time_diff\<close> is
  \<open>abs(total_seconds() / 3600)\<close>; the division of the microsecond difference is exact
  here, and the float quotient of the source is at most 24 exactly when this one is.
\<close>

definition skip_duplicate :: "state \<Rightarrow> string option \<Rightarrow> int option \<Rightarrow> bool" where
  "skip_duplicate s unique_hash current_timestamp =
     (case unique_hash of
        None \<Rightarrow> False
      | Some h \<Rightarrow>
          if h \<noteq> [] \<and> h \<in> global_processed_hashes s then
            (case map_of (hash_timestamps s) h of
               None \<Rightarrow> True
             | Some first_seen \<Rightarrow>
                 (case current_timestamp of
                    None \<Rightarrow> True
                  | Some t \<Rightarrow>
                      \<bar>rat_of_int (t - first_seen) / 1000000 / 3600\<bar>
                        \<le> rat_of_int dedup_window_hours))
          else False)"

text \<open>Marking the fingerprint as processed (source lines 397 to 400).\<close>

definition mark_processed :: "state \<Rightarrow> string option \<Rightarrow> int option \<Rightarrow> state" where
  "mark_processed s unique_hash current_timestamp =
     (case unique_hash of
        None \<Rightarrow> s
      | Some h \<Rightarrow>
          if h \<noteq> [] then
            (case current_timestamp of
               None \<Rightarrow> s\<lparr>global_processed_hashes := insert h (global_processed_hashes s)\<rparr>
             | Some t \<Rightarrow>
                 s\<lparr>global_processed_hashes := insert h (global_processed_hashes s),
                   hash_timestamps := AList.update h t (hash_timestamps s)\<rparr>)
          else s)"

text \<open>The periodic cleanup (source lines 403 to 408).\<close>

definition forget_hash :: "string \<Rightarrow> state \<Rightarrow> state" where
  "forget_hash old_hash s =
     s\<lparr>hash_timestamps := AList.delete old_hash (hash_timestamps s),
       global_processed_hashes := global_processed_hashes s - {old_hash}\<rparr>"

definition cleanup_old_hashes :: "state \<Rightarrow> int option \<Rightarrow> state" where
  "cleanup_old_hashes s current_timestamp =
     (case current_timestamp of
        None \<Rightarrow> s
      | Some t \<Rightarrow>
          if length (hash_timestamps s) > dedup_cleanup_threshold then
            (let cutoff_time = t - timedelta_hours (dedup_window_hours * 2);
                 old_hashes = map fst (filter (\<lambda>(h, ts). ts < cutoff_time) (hash_timestamps s))
             in fold forget_hash old_hashes s)
          else s)"

text \<open>
  The deduplication window as one step on the store: whether the entry is admitted, and
  the store after it. A rejected entry only counts as skipped (\<open>continue\<close>).
\<close>

definition admit :: "state \<Rightarrow> entry \<Rightarrow> bool \<times> state" where
  "admit s data =
     (let unique_hash = create_unique_hash data;
          current_timestamp = current_timestamp_of data
      in if skip_duplicate s unique_hash current_timestamp then
           (False, s\<lparr>total_entries_skipped := total_entries_skipped s + 1\<rparr>)
         else
           (True,
            cleanup_old_hashes (mark_processed s unique_hash current_timestamp)
              current_timestamp))"

subsection \<open>Aggregation into sessions\<close>

text \<open>
  The options the aggregation reads: \<open>options.get('command', 'daily')\<close> and
  \<open>options.get('last')\<close>.
\<close>

record options =
  command :: string
  last_limit :: "int option"

definition need_timestamps :: "options \<Rightarrow> bool" where
  "need_timestamps opts = (command opts = ''daily'' \<or> command opts = ''session'')"

datatype exception = ValueError | AttributeError | TypeError

text \<open>
  The second parse of the timestamp (source lines 433 to 445), which no handler inside
  the loop over the lines guards: a timestamp that does not parse raises.
\<close>

definition activity_date_of :: "options \<Rightarrow> entry \<Rightarrow> exception + string option" where
  "activity_date_of opts data =
     (if need_timestamps opts then
        (case timestamp data of
           Timestamp_absent \<Rightarrow> Inr None
         | Timestamp_not_text \<Rightarrow> Inl AttributeError
         | Timestamp_malformed \<Rightarrow> Inl ValueError
         | Timestamp t day \<Rightarrow> Inr (Some day))
      else Inr None)"

text \<open>The value the \<open>defaultdict\<close> creates for a session directory it has not seen.\<close>

definition new_session_data :: session_data where
  "new_session_data =
     \<lparr>total_cost = 0, sum_input_tokens = 0, sum_output_tokens = 0, cache_creation_tokens = 0,
      cache_read_tokens = 0, last_activity = None, models_used = {}, own_session_dir = None\<rparr>"

definition later_activity :: "string option \<Rightarrow> string option \<Rightarrow> bool" where
  "later_activity activity_date previous =
     (case activity_date of
        None \<Rightarrow> False
      | Some day \<Rightarrow> day \<noteq> [] \<and> (case previous of None \<Rightarrow> True | Some old \<Rightarrow> day > old))"

text \<open>Adding one admitted entry to its session (source lines 447 to 461).\<close>

definition aggregate ::
  "options \<Rightarrow> session_path \<Rightarrow> usage \<Rightarrow> string option \<Rightarrow> rat \<Rightarrow> string option \<Rightarrow> state \<Rightarrow> state"
  where
  "aggregate opts session_dir current_usage current_model entry_cost activity_date s =
     (let session_data =
            (case map_of (sessions_by_dir s) session_dir of
               None \<Rightarrow> new_session_data
             | Some found \<Rightarrow> found);
          session_data = session_data
            \<lparr>own_session_dir := Some session_dir,
             total_cost := total_cost session_data + entry_cost,
             sum_input_tokens := sum_input_tokens session_data + input_tokens current_usage,
             sum_output_tokens := sum_output_tokens session_data + output_tokens current_usage,
             cache_creation_tokens :=
               cache_creation_tokens session_data + cache_creation_input_tokens current_usage,
             cache_read_tokens :=
               cache_read_tokens session_data + cache_read_input_tokens current_usage\<rparr>;
          session_data =
            (case current_model of
               None \<Rightarrow> session_data
             | Some m \<Rightarrow>
                 if m \<noteq> [] then session_data\<lparr>models_used := insert m (models_used session_data)\<rparr>
                 else session_data);
          session_data =
            (if need_timestamps opts \<and> later_activity activity_date (last_activity session_data)
             then session_data\<lparr>last_activity := activity_date\<rparr>
             else session_data)
      in s\<lparr>sessions_by_dir := AList.update session_dir session_data (sessions_by_dir s)\<rparr>)"

text \<open>
  A line of a log file: empty after \<open>strip\<close>, rejected by \<open>json.loads\<close>, a JSON number,
  boolean or \<open>null\<close> (on which the first \<open>in\<close> raises \<open>TypeError\<close>), or a JSON object.
\<close>

datatype line = Blank | Invalid_json | Not_object | Object entry

text \<open>
  The body of the loop over the lines of one file. The pair is \<open>has_session_data\<close> and
  the variables of the function. \<open>Inl\<close> is an exception that leaves the loop, with the
  variables as they are when it is raised: only \<open>json.JSONDecodeError\<close> is caught inside
  the loop. A message that is no object raises in the test of source line 362, before the
  entry is counted; a usage that is no object raises in source line 412, after the entry
  is counted and its fingerprint is marked; a timestamp that does not parse raises in
  source line 439, at the same point.
\<close>

definition process_line ::
  "pricing_table \<Rightarrow> string \<Rightarrow> options \<Rightarrow> session_path \<Rightarrow> line \<Rightarrow> bool \<times> state
     \<Rightarrow> exception \<times> state + bool \<times> state" where
  "process_line pricing_data cost_mode opts session_dir l acc =
     (case l of
        Blank \<Rightarrow> Inr acc
      | Invalid_json \<Rightarrow> Inr acc
      | Not_object \<Rightarrow> Inl (TypeError, snd acc)
      | Object data \<Rightarrow>
          (case msg_usage data of
             Usage_absent \<Rightarrow> Inr acc
           | Message_not_object \<Rightarrow> Inl (TypeError, snd acc)
           | Usage_not_object \<Rightarrow>
               (let s = (snd acc)\<lparr>total_entries_processed := total_entries_processed (snd acc) + 1\<rparr>;
                    (admitted, s) = admit s data
                in if \<not> admitted then Inr (fst acc, s) else Inl (AttributeError, s))
           | Usage current_usage \<Rightarrow>
               (let s = (snd acc)\<lparr>total_entries_processed := total_entries_processed (snd acc) + 1\<rparr>;
                    (admitted, s) = admit s data
                in if \<not> admitted then Inr (fst acc, s)
                   else
                     (let current_model = msg_model data;
                          entry_cost =
                            calculate_entry_cost pricing_data cost_mode data current_usage
                              current_model
                      in case activity_date_of opts data of
                           Inl e \<Rightarrow> Inl (e, s)
                         | Inr activity_date \<Rightarrow>
                             Inr (True,
                                  aggregate opts session_dir current_usage current_model
                                    entry_cost activity_date s)))))"

fun process_lines ::
  "pricing_table \<Rightarrow> string \<Rightarrow> options \<Rightarrow> session_path \<Rightarrow> line list \<Rightarrow> bool \<times> state
     \<Rightarrow> exception \<times> state + bool \<times> state" where
  "process_lines pricing_data cost_mode opts session_dir [] acc = Inr acc"
| "process_lines pricing_data cost_mode opts session_dir (l # ls) acc =
     (case process_line pricing_data cost_mode opts session_dir l acc of
        Inl e \<Rightarrow> Inl e
      | Inr acc' \<Rightarrow> process_lines pricing_data cost_mode opts session_dir ls acc')"

text \<open>
  A log file as the code sees it: its modification time (\<open>None\<close> when \<open>stat\<close> raises) and
  its lines (\<open>None\<close> when it cannot be opened).
\<close>

record jsonl_file =
  st_mtime :: "int option"
  file_lines :: "line list option"

text \<open>
  One round of the loop over the files, after the early-exit test: an exception from the
  file is caught by \<open>except Exception\<close> and the loop goes on with the next file.
\<close>

definition process_file ::
  "pricing_table \<Rightarrow> string \<Rightarrow> options \<Rightarrow> jsonl_file \<times> session_path \<Rightarrow> state \<Rightarrow> state" where
  "process_file pricing_data cost_mode opts file_tuple s =
     (case file_lines (fst file_tuple) of
        None \<Rightarrow> s
      | Some ls \<Rightarrow>
          (case process_lines pricing_data cost_mode opts (snd file_tuple) ls (False, s) of
             Inl (e, s') \<Rightarrow> s'
           | Inr (has_session_data, s') \<Rightarrow>
               if has_session_data
                  \<and> Some (snd file_tuple) \<notin> set (map (\<lambda>(dir, sd). own_session_dir sd) (sessions_by_dir s'))
               then s'\<lparr>session_count := session_count s' + 1\<rparr>
               else s'))"

definition should_stop_early :: "options \<Rightarrow> state \<Rightarrow> bool" where
  "should_stop_early opts s =
     (case last_limit opts of
        None \<Rightarrow> False
      | Some n \<Rightarrow> n \<noteq> 0 \<and> command opts = ''session'' \<and> session_count s \<ge> n)"

fun process_all ::
  "pricing_table \<Rightarrow> string \<Rightarrow> options \<Rightarrow> (jsonl_file \<times> session_path) list \<Rightarrow> state \<Rightarrow> state"
  where
  "process_all pricing_data cost_mode opts [] s = s"
| "process_all pricing_data cost_mode opts (file_tuple # rest) s =
     (if should_stop_early opts s then s
      else process_all pricing_data cost_mode opts rest
             (process_file pricing_data cost_mode opts file_tuple s))"

text \<open>\<open>str.split\<close> with a one-character separator: the result is never empty.\<close>

fun split_on :: "char \<Rightarrow> string \<Rightarrow> string list" where
  "split_on sep [] = [[]]"
| "split_on sep (c # cs) =
     (if c = sep then [] # split_on sep cs
      else (case split_on sep cs of [] \<Rightarrow> [[c]] | w # ws \<Rightarrow> (c # w) # ws))"

text \<open>\<open>extract_session_info\<close>: the session id and the project name of a directory name.\<close>

definition extract_session_info :: "string \<Rightarrow> string \<times> string" where
  "extract_session_info session_dir_name =
     (let session_id = session_dir_name;
          project_name =
            (if take 1 session_dir_name = ''-'' then
               (let path_parts = split_on CHR ''-'' (drop 1 session_dir_name)
                in if path_parts \<noteq> [] then last path_parts else ''unknown'')
             else last (split_on CHR ''/'' session_dir_name))
      in (session_id, project_name))"

text \<open>An element of the list the aggregation returns (\<open>modelsUsed\<close> without its order).\<close>

record session_result =
  sessionId :: string
  projectPath :: string
  inputTokens :: int
  outputTokens :: int
  cacheCreationTokens :: int
  cacheReadTokens :: int
  totalCost :: rat
  lastActivity :: string
  modelsUsed :: "string set"

definition session_result_of :: "session_path \<times> session_data \<Rightarrow> session_result" where
  "session_result_of item =
     (let session_dir = fst item;
          session_data = snd item;
          (session_id, project_name) = extract_session_info (path_name session_dir)
      in \<lparr>sessionId = session_id, projectPath = project_name,
          inputTokens = sum_input_tokens session_data,
          outputTokens = sum_output_tokens session_data,
          cacheCreationTokens = cache_creation_tokens session_data,
          cacheReadTokens = cache_read_tokens session_data,
          totalCost = total_cost session_data,
          lastActivity =
            (case last_activity session_data of
               None \<Rightarrow> ''1970-01-01''
             | Some day \<Rightarrow> if day \<noteq> [] then day else ''1970-01-01''),
          modelsUsed = models_used session_data\<rparr>)"

text \<open>
  The test \<open>continue  # Skip empty sessions\<close> of the final loop. The code compares the
  float sum \<open>total_cost\<close> with 0 and the embedding compares the exact sum. For costs that
  are not negative the two tests agree. With declared costs of both signs they can
  differ: the float sum of 0.1, 0.2 and -0.3 is not 0, so the code keeps such a session
  where the test below leaves it out.
\<close>

definition skipped_as_empty :: "session_data \<Rightarrow> bool" where
  "skipped_as_empty session_data =
     (total_cost session_data = 0 \<and> sum_input_tokens session_data = 0
      \<and> sum_output_tokens session_data = 0)"

text \<open>
  \<open>process_files_with_global_dedup\<close>: \<open>accumulate\<close> is the loop over the files from the
  initial variables, and the result is the list built from \<open>sessions_by_dir\<close>.
\<close>

definition accumulate ::
  "pricing_table \<Rightarrow> string \<Rightarrow> (jsonl_file \<times> session_path) list \<Rightarrow> options \<Rightarrow> state" where
  "accumulate pricing_data cost_mode sorted_file_tuples opts =
     process_all pricing_data cost_mode opts sorted_file_tuples initial_state"

definition process_files_with_global_dedup ::
  "pricing_table \<Rightarrow> string \<Rightarrow> (jsonl_file \<times> session_path) list \<Rightarrow> options
     \<Rightarrow> session_result list" where
  "process_files_with_global_dedup pricing_data cost_mode sorted_file_tuples opts =
     map session_result_of
       (filter (\<lambda>(session_dir, session_data). \<not> skipped_as_empty session_data)
          (sessions_by_dir (accumulate pricing_data cost_mode sorted_file_tuples opts)))"

subsection \<open>Ordering the files\<close>

text \<open>
  \<open>datetime.max\<close>, in microseconds after \<open>datetime.min\<close> (the origin of every datetime
  of the embedding).
\<close>

definition datetime_max :: int where
  "datetime_max = 315537897599999999"

text \<open>
  \<open>get_earliest_timestamp\<close>. A malformed timestamp is skipped (\<open>ValueError\<close> is caught
  with the line); any other exception ends the function with \<open>None\<close>. The function
  reads the key \<open>timestamp\<close> of every line, whatever its message is.
\<close>

fun earliest_of_lines :: "line list \<Rightarrow> int option \<Rightarrow> exception + int option" where
  "earliest_of_lines [] earliest_date = Inr earliest_date"
| "earliest_of_lines (Object data # ls) earliest_date =
     (case timestamp data of
        Timestamp_absent \<Rightarrow> earliest_of_lines ls earliest_date
      | Timestamp_not_text \<Rightarrow> Inl AttributeError
      | Timestamp_malformed \<Rightarrow> earliest_of_lines ls earliest_date
      | Timestamp date day \<Rightarrow>
          earliest_of_lines ls
            (case earliest_date of
               None \<Rightarrow> Some date
             | Some e \<Rightarrow> if date < e then Some date else Some e))"
| "earliest_of_lines (Not_object # ls) earliest_date = Inl TypeError"
| "earliest_of_lines (l # ls) earliest_date = earliest_of_lines ls earliest_date"

definition get_earliest_timestamp :: "jsonl_file \<Rightarrow> int option" where
  "get_earliest_timestamp jsonl_file =
     (case file_lines jsonl_file of
        None \<Rightarrow> None
      | Some ls \<Rightarrow> (case earliest_of_lines ls None of Inl e \<Rightarrow> None | Inr earliest \<Rightarrow> earliest))"

text \<open>
  \<open>sort_all_files_by_timestamp\<close>: the key of a file is its modification time, then the
  earliest timestamp of its content when fewer than 100 files are sorted (else the
  modification time again). \<open>list.sort\<close> is stable, as \<^const>\<open>sort_key\<close> is.
\<close>

definition sort_keys :: "nat \<Rightarrow> jsonl_file \<Rightarrow> int \<times> int" where
  "sort_keys n jsonl_file =
     (let file_mtime = (case st_mtime jsonl_file of None \<Rightarrow> datetime_max | Some t \<Rightarrow> t);
          content_timestamp = (if n < 100 then get_earliest_timestamp jsonl_file else None);
          primary_sort = file_mtime;
          secondary_sort = (case content_timestamp of None \<Rightarrow> file_mtime | Some t \<Rightarrow> t)
      in (primary_sort, secondary_sort))"

definition sort_all_files_by_timestamp ::
  "(jsonl_file \<times> session_path) list \<Rightarrow> (jsonl_file \<times> session_path) list" where
  "sort_all_files_by_timestamp file_tuples =
     (let files_with_timestamps =
            map (\<lambda>(jsonl_file, session_dir).
                   (jsonl_file, session_dir, sort_keys (length file_tuples) jsonl_file))
              file_tuples
      in map (\<lambda>(jsonl_file, session_dir, keys). (jsonl_file, session_dir))
           (sort_key (\<lambda>(jsonl_file, session_dir, keys). keys) files_with_timestamps))"

text \<open>
  The last two steps of \<open>aggregate_data_parallel\<close>, from the list \<open>all_jsonl_files\<close> that
  the discovery of the directories and the date filter leave.
\<close>

definition aggregate_data_parallel ::
  "pricing_table \<Rightarrow> string \<Rightarrow> options \<Rightarrow> (jsonl_file \<times> session_path) list
     \<Rightarrow> session_result list" where
  "aggregate_data_parallel pricing_data cost_mode opts all_jsonl_files =
     process_files_with_global_dedup pricing_data cost_mode
       (sort_all_files_by_timestamp all_jsonl_files) opts"

subsection \<open>Daily and monthly views\<close>

text \<open>
  Python slices with an integer bound that may be negative: \<open>xs[:k]\<close> and \<open>xs[k:]\<close>.
\<close>

definition slice_to :: "int \<Rightarrow> 'a list \<Rightarrow> 'a list" where
  "slice_to k xs = (if 0 \<le> k then take (nat k) xs else take (length xs - nat (- k)) xs)"

definition slice_from :: "int \<Rightarrow> 'a list \<Rightarrow> 'a list" where
  "slice_from k xs = (if 0 \<le> k then drop (nat k) xs else drop (length xs - nat (- k)) xs)"

text \<open>\<open>limit or default\<close>: the default replaces \<open>None\<close> and \<open>0\<close>.\<close>

definition limit_or :: "int option \<Rightarrow> int \<Rightarrow> int" where
  "limit_or limit dflt =
     (case limit of None \<Rightarrow> dflt | Some n \<Rightarrow> if n \<noteq> 0 then n else dflt)"

text \<open>\<open>sort(key=..., reverse=True)\<close>: descending, and stable like the ascending sort.\<close>

definition sort_key_reverse :: "('a \<Rightarrow> 'k::linorder) \<Rightarrow> 'a list \<Rightarrow> 'a list" where
  "sort_key_reverse f xs = rev (sort_key f (rev xs))"

record project_group =
  project :: string
  sessions :: int
  project_totalCost :: rat
  totalTokens :: int

record day =
  date :: string
  projects :: "project_group list"
  day_totalCost :: rat
  day_totalSessions :: int

record month_group =
  month :: string
  month_totalCost :: rat
  month_totalSessions :: int

definition date_of_session :: "session_result \<Rightarrow> string" where
  "date_of_session session =
     (let last_activity = lastActivity session
      in if last_activity \<noteq> [] \<and> last_activity \<noteq> ''unknown'' \<and> last_activity \<noteq> ''1970-01-01''
         then last_activity else ''unknown'')"

definition project_name_of :: "session_result \<Rightarrow> string" where
  "project_name_of session =
     (if sessionId session \<noteq> [] \<and> take 1 (sessionId session) = ''-'' then
        (let path_parts = split_on CHR ''-'' (drop 1 (sessionId session))
         in if path_parts \<noteq> [] then last path_parts else ''unknown'')
      else last (split_on CHR ''/'' (projectPath session)))"

definition add_to_project_groups ::
  "session_result \<Rightarrow> (string \<times> project_group) list \<Rightarrow> (string \<times> project_group) list" where
  "add_to_project_groups session project_groups =
     (let project_name = project_name_of session;
          group =
            (case map_of project_groups project_name of
               None \<Rightarrow> \<lparr>project = [], sessions = 0, project_totalCost = 0, totalTokens = 0\<rparr>
             | Some g \<Rightarrow> g);
          group = group
            \<lparr>project := project_name,
             sessions := sessions group + 1,
             project_totalCost := project_totalCost group + totalCost session,
             totalTokens := totalTokens group
               + (inputTokens session + outputTokens session + cacheCreationTokens session
                  + cacheReadTokens session)\<rparr>
      in AList.update project_name group project_groups)"

definition day_of_group :: "string \<times> session_result list \<Rightarrow> day" where
  "day_of_group item =
     (let project_groups = fold add_to_project_groups (snd item) [];
          day_total = sum_list (map totalCost (snd item))
      in \<lparr>date = fst item,
          projects = sort_key_reverse project_totalCost (map snd project_groups),
          day_totalCost = day_total,
          day_totalSessions = int (length (snd item))\<rparr>)"

definition add_to_date_groups ::
  "session_result \<Rightarrow> (string \<times> session_result list) list \<Rightarrow> (string \<times> session_result list) list"
  where
  "add_to_date_groups session date_groups =
     AList.update (date_of_session session)
       ((case map_of date_groups (date_of_session session) of None \<Rightarrow> [] | Some ss \<Rightarrow> ss)
        @ [session])
       date_groups"

text \<open>\<open>process_daily_with_projects\<close>.\<close>

definition process_daily_with_projects :: "session_result list \<Rightarrow> int option \<Rightarrow> day list" where
  "process_daily_with_projects session_data limit =
     (let date_groups = fold add_to_date_groups session_data [];
          result = sort_key_reverse date (map day_of_group date_groups);
          display_limit = limit_or limit 30
      in slice_to display_limit result)"

definition add_to_monthly_groups ::
  "day \<Rightarrow> (string \<times> month_group) list \<Rightarrow> (string \<times> month_group) list" where
  "add_to_monthly_groups d monthly_groups =
     (let m = take 7 (date d);
          group =
            (case map_of monthly_groups m of
               None \<Rightarrow> \<lparr>month = [], month_totalCost = 0, month_totalSessions = 0\<rparr>
             | Some g \<Rightarrow> g);
          group = group
            \<lparr>month := m,
             month_totalCost := month_totalCost group + day_totalCost d,
             month_totalSessions := month_totalSessions group + day_totalSessions d\<rparr>
      in AList.update m group monthly_groups)"

text \<open>\<open>process_monthly_data\<close>.\<close>

definition process_monthly_data :: "day list \<Rightarrow> int option \<Rightarrow> month_group list" where
  "process_monthly_data daily_data limit =
     (let monthly_groups = fold add_to_monthly_groups daily_data [];
          result = sort_key month (map snd monthly_groups);
          display_limit = limit_or limit 10
      in slice_from (- display_limit) result)"

text \<open>The data \<open>display_monthly\<close> prints: the months of the daily breakdown.\<close>

definition display_monthly :: "session_result list \<Rightarrow> int option \<Rightarrow> month_group list" where
  "display_monthly data limit =
     (let daily_data = process_daily_with_projects data None;
          monthly_data = process_monthly_data daily_data limit
      in monthly_data)"

subsection \<open>Live monitoring: current sessions and burn rate\<close>

text \<open>
  The functions of this part are those of \<open>src/build/lib/claude_usage.py\<close>.

  The timestamp of a line as \<open>get_current_session_data\<close> reads it: absent, raising (the
  value is no string, or does not parse, or carries an offset other than \<open>Z\<close> and
  \<open>+00:00\<close>, which makes the comparison with the naive cutoff raise), or a naive UTC
  datetime.
\<close>

datatype live_timestamp = Live_absent | Live_raises | Live_time int

text \<open>
  A line that decodes to a JSON object; \<open>live_usage\<close> is the usage as the test
  \<open>'message' in data and 'usage' in data['message'] and entry_time\<close> and the later
  \<open>usage.get\<close> see it.
\<close>

record live_entry =
  live_time :: live_timestamp
  live_usage :: usage_field
  live_model :: "string option"
  live_costUSD :: cost_field

text \<open>
  A line of a recent file: empty, rejected by \<open>json.loads\<close>, a JSON number, boolean or
  \<open>null\<close> (on which \<open>in\<close> raises), or a JSON object.
\<close>

datatype live_line = Live_blank | Live_invalid_json | Live_not_object | Live_object live_entry

text \<open>
  The dictionary \<open>session_data\<close> of \<open>get_current_session_data\<close>. The keys \<open>sessionId\<close>,
  \<open>total_cost\<close> and \<open>last_activity\<close> of the source carry the prefix \<open>live_\<close> here; the keys
  \<open>models_used\<close> and \<open>usage_by_model\<close>, which no rate reads, are left out. A minute key
  \<open>strftime('%Y-%m-%d %H:%M')\<close> is the number of the minute, whose order is the order of
  the printed keys.
\<close>

record live_session =
  live_sessionId :: string
  live_total_cost :: rat
  total_tokens :: int
  start_time :: "int option"
  live_last_activity :: "int option"
  file_modified :: int
  tokens_by_minute :: "(int \<times> int) list"
  cost_by_minute :: "(int \<times> rat) list"
  realBurnRateTokens :: rat
  realBurnRateCost :: rat

definition minute_key_of :: "int \<Rightarrow> int" where
  "minute_key_of entry_time = entry_time div 60000000"

definition counted_tokens :: "usage \<Rightarrow> int" where
  "counted_tokens u =
     input_tokens u + output_tokens u + cache_creation_input_tokens u + cache_read_input_tokens u"

text \<open>The cost of a line in live mode (build/lib lines 1019 to 1028).\<close>

definition live_entry_cost :: "pricing_table \<Rightarrow> live_entry \<Rightarrow> usage \<Rightarrow> rat" where
  "live_entry_cost pricing_data data u =
     (case live_costUSD data of
        Cost c \<Rightarrow> c
      | _ \<Rightarrow>
        (case live_model data of
           None \<Rightarrow> 0
         | Some model_name \<Rightarrow>
             if model_name \<noteq> [] then calculate_cost_from_tokens pricing_data u model_name
             else 0))"

text \<open>
  The body of the loop over the lines (build/lib lines 968 to 1039); \<open>Inl\<close> is an
  exception other than \<open>JSONDecodeError\<close>, which ends the file. An entry before the
  cutoff is left by \<open>continue\<close> before its message is looked at. The test of line 997
  looks at the message before it looks at \<open>entry_time\<close>, so a message that is no object
  raises also when the line has no timestamp; a usage that is no object raises in
  \<open>usage.get\<close> only when the line has a timestamp.
\<close>

definition live_line_step ::
  "pricing_table \<Rightarrow> int \<Rightarrow> live_line \<Rightarrow> live_session \<Rightarrow> exception + live_session" where
  "live_line_step pricing_data utc_cutoff l session_data =
     (case l of
        Live_blank \<Rightarrow> Inr session_data
      | Live_invalid_json \<Rightarrow> Inr session_data
      | Live_not_object \<Rightarrow> Inl TypeError
      | Live_object data \<Rightarrow>
          (case live_time data of
             Live_absent \<Rightarrow>
               (case live_usage data of
                  Message_not_object \<Rightarrow> Inl TypeError
                | _ \<Rightarrow> Inr session_data)
           | Live_raises \<Rightarrow> Inl ValueError
           | Live_time entry_time \<Rightarrow>
               if entry_time < utc_cutoff then Inr session_data
               else
                 (let session_data = session_data
                        \<lparr>start_time :=
                           (case start_time session_data of
                              None \<Rightarrow> Some entry_time
                            | Some t \<Rightarrow> if entry_time < t then Some entry_time else Some t),
                         live_last_activity :=
                           (case live_last_activity session_data of
                              None \<Rightarrow> Some entry_time
                            | Some t \<Rightarrow> if entry_time > t then Some entry_time else Some t)\<rparr>
                  in case live_usage data of
                       Usage_absent \<Rightarrow> Inr session_data
                     | Message_not_object \<Rightarrow> Inl TypeError
                     | Usage_not_object \<Rightarrow> Inl AttributeError
                     | Usage u \<Rightarrow>
                         (let tokens = counted_tokens u;
                              minute_key = minute_key_of entry_time;
                              entry_cost = live_entry_cost pricing_data data u
                          in Inr (session_data
                               \<lparr>total_tokens := total_tokens session_data + tokens,
                                tokens_by_minute :=
                                  AList.update minute_key
                                    ((case map_of (tokens_by_minute session_data) minute_key of
                                        None \<Rightarrow> 0 | Some n \<Rightarrow> n) + tokens)
                                    (tokens_by_minute session_data),
                                live_total_cost := live_total_cost session_data + entry_cost,
                                cost_by_minute :=
                                  AList.update minute_key
                                    ((case map_of (cost_by_minute session_data) minute_key of
                                        None \<Rightarrow> 0 | Some c \<Rightarrow> c) + entry_cost)
                                    (cost_by_minute session_data)\<rparr>)))))"

fun live_lines ::
  "pricing_table \<Rightarrow> int \<Rightarrow> live_line list \<Rightarrow> live_session \<Rightarrow> exception + live_session" where
  "live_lines pricing_data utc_cutoff [] session_data = Inr session_data"
| "live_lines pricing_data utc_cutoff (l # ls) session_data =
     (case live_line_step pricing_data utc_cutoff l session_data of
        Inl e \<Rightarrow> Inl e
      | Inr session_data' \<Rightarrow> live_lines pricing_data utc_cutoff ls session_data')"

text \<open>
  The burn rates of one session (build/lib lines 1049 to 1076): tokens per minute and
  cost per hour.
\<close>

definition burn_rates :: "(int \<times> int) list \<Rightarrow> (int \<times> rat) list \<Rightarrow> rat \<times> rat" where
  "burn_rates tokens_by_min cost_by_min =
     (if length tokens_by_min \<ge> 1 then
        (let recent_minutes = sort (map fst tokens_by_min);
             recent_tokens =
               sum_list (map (\<lambda>m. case map_of tokens_by_min m of None \<Rightarrow> 0 | Some n \<Rightarrow> n)
                           recent_minutes);
             recent_cost =
               sum_list (map (\<lambda>m. case map_of cost_by_min m of None \<Rightarrow> 0 | Some c \<Rightarrow> c)
                           recent_minutes)
         in if length recent_minutes \<ge> 2 then
              (let start_minute = hd recent_minutes;
                   end_minute = last recent_minutes;
                   actual_duration_minutes = rat_of_int (end_minute - start_minute) + 1
               in (rat_of_int recent_tokens / actual_duration_minutes,
                   recent_cost / actual_duration_minutes * 60))
            else (rat_of_int recent_tokens, recent_cost * 60))
      else (0, 0))"

text \<open>
  A recently modified file with the name of its session directory, its modification
  time, and the cutoff \<open>utcnow() - 2 minutes\<close> taken when the file is read.
\<close>

record recent_file =
  recent_lines :: "live_line list option"
  session_dir_name :: string
  file_mtime :: int
  utc_cutoff :: int

text \<open>
  What one file adds to \<open>current_sessions\<close>: nothing when an exception ends the file or
  when it has neither tokens nor cost in the window.
\<close>

definition current_session_of :: "pricing_table \<Rightarrow> recent_file \<Rightarrow> live_session option" where
  "current_session_of pricing_data f =
     (let session_data =
            \<lparr>live_sessionId = session_dir_name f, live_total_cost = 0, total_tokens = 0,
             start_time = None, live_last_activity = None, file_modified = file_mtime f,
             tokens_by_minute = [], cost_by_minute = [], realBurnRateTokens = 0,
             realBurnRateCost = 0\<rparr>
      in case recent_lines f of
           None \<Rightarrow> None
         | Some ls \<Rightarrow>
             (case live_lines pricing_data (utc_cutoff f) ls session_data of
                Inl e \<Rightarrow> None
              | Inr session_data \<Rightarrow>
                  if total_tokens session_data > 0 \<or> live_total_cost session_data > 0 then
                    (let (burn_rate_tokens, burn_rate_cost) =
                           burn_rates (tokens_by_minute session_data)
                             (cost_by_minute session_data)
                     in Some (session_data
                          \<lparr>realBurnRateTokens := burn_rate_tokens,
                           realBurnRateCost := burn_rate_cost\<rparr>))
                  else None))"

text \<open>\<open>get_current_session_data\<close>, from the list \<open>recent_files\<close>.\<close>

definition get_current_session_data ::
  "pricing_table \<Rightarrow> recent_file list \<Rightarrow> (string \<times> live_session) list" where
  "get_current_session_data pricing_data recent_files =
     fold (\<lambda>f current_sessions.
             case current_session_of pricing_data f of
               None \<Rightarrow> current_sessions
             | Some session_data \<Rightarrow>
                 AList.update (session_dir_name f) session_data current_sessions)
       recent_files []"

subsection \<open>Live monitoring: the synthesized block\<close>

record token_counts =
  block_inputTokens :: int
  block_outputTokens :: int
  cacheCreationInputTokens :: int
  cacheReadInputTokens :: int

text \<open>
  The dictionary \<open>synthetic_block\<close>; \<open>startTime\<close> and \<open>endTime\<close> are the datetimes whose
  ISO text the source stores.
\<close>

record block =
  startTime :: int
  endTime :: int
  tokenCounts :: token_counts
  block_costUSD :: rat
  activeSessionCount :: nat
  block_realBurnRateTokens :: rat
  block_realBurnRateCost :: rat
  tokensPerMinute :: "(int \<times> int) list"

text \<open>The variables of the loop over \<open>current_sessions\<close> (build/lib lines 1120 to 1157).\<close>

record totals =
  sum_total_tokens :: int
  sum_total_cost :: rat
  earliest_start :: "int option"
  latest_activity :: "int option"
  all_tokens_by_minute :: "(int \<times> int) list"
  all_cost_by_minute :: "(int \<times> rat) list"
  total_burn_rate_tokens :: rat
  total_burn_rate_cost :: rat
  sessions_with_valid_burn_rates :: nat

definition add_minute :: "'k \<times> 'v::plus \<Rightarrow> 'v \<Rightarrow> ('k \<times> 'v) list \<Rightarrow> ('k \<times> 'v) list" where
  "add_minute item zero by_minute =
     AList.update (fst item)
       ((case map_of by_minute (fst item) of None \<Rightarrow> zero | Some v \<Rightarrow> v) + snd item) by_minute"

definition add_session :: "live_session \<Rightarrow> totals \<Rightarrow> totals" where
  "add_session session_data acc =
     acc\<lparr>sum_total_tokens := sum_total_tokens acc + total_tokens session_data,
         sum_total_cost := sum_total_cost acc + live_total_cost session_data,
         total_burn_rate_tokens := total_burn_rate_tokens acc + realBurnRateTokens session_data,
         total_burn_rate_cost := total_burn_rate_cost acc + realBurnRateCost session_data,
         sessions_with_valid_burn_rates :=
           (if realBurnRateTokens session_data > 0 then sessions_with_valid_burn_rates acc + 1
            else sessions_with_valid_burn_rates acc),
         earliest_start :=
           (case start_time session_data of
              None \<Rightarrow> earliest_start acc
            | Some t \<Rightarrow>
                (case earliest_start acc of
                   None \<Rightarrow> Some t
                 | Some e \<Rightarrow> if t < e then Some t else Some e)),
         latest_activity :=
           (case live_last_activity session_data of
              None \<Rightarrow> latest_activity acc
            | Some t \<Rightarrow>
                (case latest_activity acc of
                   None \<Rightarrow> Some t
                 | Some e \<Rightarrow> if t > e then Some t else Some e)),
         all_tokens_by_minute :=
           fold (\<lambda>item. add_minute item 0) (tokens_by_minute session_data)
             (all_tokens_by_minute acc),
         all_cost_by_minute :=
           fold (\<lambda>item. add_minute item 0) (cost_by_minute session_data)
             (all_cost_by_minute acc)\<rparr>"

definition no_totals :: totals where
  "no_totals =
     \<lparr>sum_total_tokens = 0, sum_total_cost = 0, earliest_start = None, latest_activity = None,
      all_tokens_by_minute = [], all_cost_by_minute = [], total_burn_rate_tokens = 0,
      total_burn_rate_cost = 0, sessions_with_valid_burn_rates = 0\<rparr>"

text \<open>
  The fallback of \<open>find_active_session_block\<close> (build/lib lines 1116 to 1189), reached
  when no stored block is still open: the block synthesized from \<open>current_sessions\<close>, or
  \<open>None\<close>.
\<close>

definition synthetic_block :: "(string \<times> live_session) list \<Rightarrow> block option" where
  "synthetic_block current_sessions =
     (if current_sessions \<noteq> [] then
        (let acc = fold add_session (map snd current_sessions) no_totals;
             active_session_count = length current_sessions
         in case latest_activity acc of
              None \<Rightarrow> None
            | Some latest \<Rightarrow>
                if sum_total_tokens acc > 0 then
                  Some \<lparr>startTime = (case earliest_start acc of None \<Rightarrow> latest | Some e \<Rightarrow> e),
                        endTime = latest + 10 * 60000000,
                        tokenCounts =
                          \<lparr>block_inputTokens = sum_total_tokens acc div 2,
                           block_outputTokens = sum_total_tokens acc div 2,
                           cacheCreationInputTokens = 0,
                           cacheReadInputTokens = 0\<rparr>,
                        block_costUSD = sum_total_cost acc,
                        activeSessionCount = active_session_count,
                        block_realBurnRateTokens = total_burn_rate_tokens acc,
                        block_realBurnRateCost = total_burn_rate_cost acc,
                        tokensPerMinute = all_tokens_by_minute acc\<rparr>
                else None)
      else None)"

section \<open>Properties\<close>

subsection \<open>Cost modes\<close>

text \<open>
  The cost of an entry as the specification words it: each of the four token counts
  times the rate of its category, where a category without a rate is free.
\<close>

definition rate_or_free :: "rat option \<Rightarrow> rat" where
  "rate_or_free rate = (case rate of None \<Rightarrow> 0 | Some r \<Rightarrow> r)"

definition token_price_sum :: "pricing \<Rightarrow> usage \<Rightarrow> rat" where
  "token_price_sum pricing tokens =
     of_int (input_tokens tokens) * rate_or_free (input_cost_per_token pricing)
     + of_int (output_tokens tokens) * rate_or_free (output_cost_per_token pricing)
     + of_int (cache_creation_input_tokens tokens)
         * rate_or_free (cache_creation_input_token_cost pricing)
     + of_int (cache_read_input_tokens tokens)
         * rate_or_free (cache_read_input_token_cost pricing)"

definition declared_cost :: "entry \<Rightarrow> rat" where
  "declared_cost data = (case costUSD data of Cost c \<Rightarrow> c | _ \<Rightarrow> 0)"

text \<open>A price table and an entry for the examples: the tokens of the entry cost 7.\<close>

definition example_pricing :: pricing_table where
  "example_pricing =
     [''claude-example'' \<mapsto>
        \<lparr>input_cost_per_token = Some (1 / 1000000), output_cost_per_token = Some (5 / 1000000),
         cache_creation_input_token_cost = None, cache_read_input_token_cost = Some 0\<rparr>]"

definition example_usage :: usage where
  "example_usage =
     \<lparr>input_tokens = 2000000, output_tokens = 1000000, cache_creation_input_tokens = 10,
      cache_read_input_tokens = 20\<rparr>"

definition example_entry :: entry where
  "example_entry =
     \<lparr>timestamp = Timestamp_absent, msg_id = None, requestId = None,
      msg_usage = Usage example_usage, msg_model = Some ''claude-example'', costUSD = Cost 5\<rparr>"

lemma add_token_cost_eq: "add_token_cost rate n cost = cost + of_int n * rate_or_free rate"
  by (simp add: add_token_cost_def rate_or_free_def split: option.split)

lemma calculate_cost_from_tokens_sum:
  "calculate_cost_from_tokens pricing_data tokens model_name =
     (case pricing_data model_name of None \<Rightarrow> 0 | Some p \<Rightarrow> token_price_sum p tokens)"
  by (simp add: calculate_cost_from_tokens_def add_token_cost_eq token_price_sum_def
      split: option.split)

lemma get_pricing_data_empty_name: "get_pricing_data response [] = None"
  by (simp add: get_pricing_data_def fallback_pricing_def split: option.split)

lemma example_cost_from_tokens:
  "calculate_cost_from_tokens (get_pricing_data (Some example_pricing)) example_usage
     ''claude-example'' = 7"
  by (simp add: calculate_cost_from_tokens_def add_token_cost_def get_pricing_data_def
      example_pricing_def example_usage_def)

text \<open>
  Claim C4. In mode \<open>display\<close> the cost of an entry is its declared \<open>costUSD\<close> (0 when the
  key is absent or null), whatever the tokens, the model and the price table are. In
  mode \<open>auto\<close> it is the declared cost when there is one, and otherwise the cost that
  mode \<open>calculate\<close> gives. So an entry that declares 5 and whose tokens compute to 7
  costs 5 under \<open>display\<close>, 7 under \<open>calculate\<close> and 5 under \<open>auto\<close>.
\<close>

theorem cost_modes:
  "calculate_entry_cost pricing_data ''display'' data tokens current_model = declared_cost data
   \<and> calculate_entry_cost pricing_data ''auto'' data tokens current_model =
       (case costUSD data of
          Cost c \<Rightarrow> c
        | _ \<Rightarrow> calculate_entry_cost pricing_data ''calculate'' data tokens current_model)
   \<and> (costUSD data = Cost 5 \<and> current_model = Some m \<and> m \<noteq> []
        \<and> calculate_cost_from_tokens pricing_data tokens m = 7 \<longrightarrow>
        calculate_entry_cost pricing_data ''display'' data tokens current_model = 5
        \<and> calculate_entry_cost pricing_data ''calculate'' data tokens current_model = 7
        \<and> calculate_entry_cost pricing_data ''auto'' data tokens current_model = 5)"
  by (simp add: calculate_entry_cost_def declared_cost_def split: cost_field.split)

theorem cost_modes_witness:
  "calculate_entry_cost (get_pricing_data (Some example_pricing)) ''display'' example_entry
     example_usage (Some ''claude-example'') = 5
   \<and> calculate_entry_cost (get_pricing_data (Some example_pricing)) ''calculate'' example_entry
       example_usage (Some ''claude-example'') = 7
   \<and> calculate_entry_cost (get_pricing_data (Some example_pricing)) ''auto'' example_entry
       example_usage (Some ''claude-example'') = 5"
  using cost_modes [where pricing_data = "get_pricing_data (Some example_pricing)"
      and data = example_entry and tokens = example_usage
      and current_model = "Some ''claude-example''" and m = "''claude-example''"]
    example_cost_from_tokens
  by (simp add: example_entry_def)

text \<open>
  Claim C6. In mode \<open>calculate\<close> the cost does not depend on the declared cost: for every
  price table the program can hold it is the sum, over the four categories, of the token
  count times the rate found under the model of the entry, where a missing rate counts
  as 0; it is 0 when the entry has no model or the table has no such model.
\<close>

theorem calculate_mode_sums_token_prices:
  "calculate_entry_cost (get_pricing_data response) ''calculate'' (data\<lparr>costUSD := declared\<rparr>)
       tokens current_model =
     (case current_model of
        None \<Rightarrow> 0
      | Some m \<Rightarrow>
          (case get_pricing_data response m of
             None \<Rightarrow> 0
           | Some p \<Rightarrow> token_price_sum p tokens))"
  by (simp add: calculate_entry_cost_def calculate_cost_from_tokens_sum
      get_pricing_data_empty_name split: option.split)

theorem calculate_mode_sums_token_prices_witness:
  "calculate_entry_cost (get_pricing_data (Some example_pricing)) ''calculate''
       (example_entry\<lparr>costUSD := Cost 5\<rparr>) example_usage (Some ''claude-example'') =
     2000000 * (1 / 1000000) + 1000000 * (5 / 1000000) + 10 * 0 + 20 * 0
   \<and> calculate_entry_cost (get_pricing_data None) ''calculate''
       (example_entry\<lparr>costUSD := Cost 5\<rparr>) example_usage (Some ''claude-example'') = 0"
  using calculate_mode_sums_token_prices [where response = "Some example_pricing"
      and data = example_entry and declared = "Cost 5" and tokens = example_usage
      and current_model = "Some ''claude-example''"]
    calculate_mode_sums_token_prices [where response = None
      and data = example_entry and declared = "Cost 5" and tokens = example_usage
      and current_model = "Some ''claude-example''"]
  by (simp add: get_pricing_data_def example_pricing_def fallback_pricing_def
      token_price_sum_def rate_or_free_def example_usage_def)

subsection \<open>The token split of the synthesized block\<close>

text \<open>The tokens of all current sessions, and the tokens a block reports.\<close>

definition total_of_sessions :: "(string \<times> live_session) list \<Rightarrow> int" where
  "total_of_sessions current_sessions =
     sum_list (map (\<lambda>(name, session_data). total_tokens session_data) current_sessions)"

definition reported_tokens :: "token_counts \<Rightarrow> int" where
  "reported_tokens c =
     block_inputTokens c + block_outputTokens c + cacheCreationInputTokens c
     + cacheReadInputTokens c"

definition example_live_session :: "int \<Rightarrow> int \<Rightarrow> live_session" where
  "example_live_session n t =
     \<lparr>live_sessionId = ''-home-user-demo'', live_total_cost = 1 / 2, total_tokens = n,
      start_time = Some t, live_last_activity = Some (t + 60000000), file_modified = t,
      tokens_by_minute = [(t div 60000000, n)], cost_by_minute = [(t div 60000000, 1 / 2)],
      realBurnRateTokens = of_int n, realBurnRateCost = 30\<rparr>"

definition example_sessions :: "(string \<times> live_session) list" where
  "example_sessions =
     [(''-home-user-demo'', example_live_session 4 0),
      (''-home-user-other'', example_live_session 3 120000000)]"

definition example_block :: block where
  "example_block =
     \<lparr>startTime = 0, endTime = 780000000,
      tokenCounts =
        \<lparr>block_inputTokens = 3, block_outputTokens = 3, cacheCreationInputTokens = 0,
         cacheReadInputTokens = 0\<rparr>,
      block_costUSD = 1, activeSessionCount = 2, block_realBurnRateTokens = 7,
      block_realBurnRateCost = 60, tokensPerMinute = [(0, 4), (2, 3)]\<rparr>"

lemma fold_add_session_tokens:
  "sum_total_tokens (fold add_session xs acc)
     = sum_total_tokens acc + sum_list (map total_tokens xs)"
  by (induction xs arbitrary: acc) (simp_all add: add_session_def)

lemma synthetic_block_total:
  "sum_total_tokens (fold add_session (map snd current_sessions) no_totals)
     = total_of_sessions current_sessions"
  by (simp add: fold_add_session_tokens total_of_sessions_def no_totals_def comp_def
      case_prod_unfold)

lemma synthetic_block_example: "synthetic_block example_sessions = Some example_block"
  by (simp add: synthetic_block_def example_sessions_def example_live_session_def Let_def
      add_session_def no_totals_def add_minute_def example_block_def)

text \<open>
  Claim C9. A synthesized block over sessions whose tokens total \<open>T\<close> has \<open>T > 0\<close>, reports
  \<open>T div 2\<close> input tokens, \<open>T div 2\<close> output tokens and no cache tokens, so the four
  reported counts add up to \<open>T - T mod 2\<close>: one token less than \<open>T\<close> when \<open>T\<close> is odd.
\<close>

theorem synthetic_block_token_split:
  assumes "synthetic_block current_sessions = Some b"
  shows "0 < total_of_sessions current_sessions
    \<and> block_inputTokens (tokenCounts b) = total_of_sessions current_sessions div 2
    \<and> block_outputTokens (tokenCounts b) = total_of_sessions current_sessions div 2
    \<and> cacheCreationInputTokens (tokenCounts b) = 0
    \<and> cacheReadInputTokens (tokenCounts b) = 0
    \<and> reported_tokens (tokenCounts b)
        = total_of_sessions current_sessions - total_of_sessions current_sessions mod 2
    \<and> (odd (total_of_sessions current_sessions) \<longrightarrow>
         reported_tokens (tokenCounts b) = total_of_sessions current_sessions - 1)"
proof -
  let ?T = "total_of_sessions current_sessions"
  from assms have pos: "0 < ?T"
    and b: "tokenCounts b =
      \<lparr>block_inputTokens = ?T div 2, block_outputTokens = ?T div 2,
       cacheCreationInputTokens = 0, cacheReadInputTokens = 0\<rparr>"
    by (auto simp: synthetic_block_def Let_def synthetic_block_total
        split: if_splits option.splits)
  have "?T div 2 + ?T div 2 = ?T - ?T mod 2"
    by presburger
  moreover have "odd ?T \<Longrightarrow> ?T mod 2 = 1"
    by presburger
  ultimately show ?thesis
    using pos b by (simp add: reported_tokens_def)
qed

theorem synthetic_block_token_split_witness:
  "synthetic_block example_sessions = Some example_block
   \<and> total_of_sessions example_sessions = 7
   \<and> odd (total_of_sessions example_sessions)
   \<and> block_inputTokens (tokenCounts example_block) = 3
   \<and> block_outputTokens (tokenCounts example_block) = 3
   \<and> reported_tokens (tokenCounts example_block) = 6"
  using synthetic_block_token_split [OF synthetic_block_example] synthetic_block_example
  by (simp add: total_of_sessions_def example_sessions_def example_live_session_def)

subsection \<open>The deduplication window\<close>

text \<open>The decisions of the window on a stream of entries, in order.\<close>

fun admit_stream :: "state \<Rightarrow> entry list \<Rightarrow> bool list" where
  "admit_stream s [] = []"
| "admit_stream s (data # rest) = fst (admit s data) # admit_stream (snd (admit s data)) rest"

text \<open>
  The association list \<open>hash_timestamps\<close> stands for a dictionary: no key occurs twice.
  The initial variables satisfy this and every step of the window keeps it
  (\<open>initial_keys_unique\<close>, \<open>admit_keys_unique\<close> below).
\<close>

definition keys_unique :: "state \<Rightarrow> bool" where
  "keys_unique s = distinct (map fst (hash_timestamps s))"

definition example_event :: "timestamp_field \<Rightarrow> entry" where
  "example_event ts =
     \<lparr>timestamp = ts, msg_id = Some ''msg_1'', requestId = Some ''req_1'',
      msg_usage = Usage example_usage, msg_model = Some ''claude-example'', costUSD = Cost_absent\<rparr>"

lemma create_unique_hash_not_empty: "create_unique_hash data = Some h \<Longrightarrow> h \<noteq> []"
  by (auto simp: create_unique_hash_def split: option.splits)

lemma fold_forget_hash_timestamps:
  "hash_timestamps (fold forget_hash ks s) = filter (\<lambda>(k, v). k \<notin> set ks) (hash_timestamps s)"
  by (induction ks arbitrary: s) (auto simp: forget_hash_def AList.delete_eq case_prod_unfold intro: filter_cong)

lemma fold_forget_hash_hashes:
  "global_processed_hashes (fold forget_hash ks s) = global_processed_hashes s - set ks"
  by (induction ks arbitrary: s) (auto simp: forget_hash_def)

lemma map_of_filter_keys:
  "map_of (filter (\<lambda>(k, v). k \<notin> A) al) h = (if h \<in> A then None else map_of al h)"
  by (induction al) auto

lemma old_hash_iff:
  assumes "distinct (map fst al)"
  shows "h \<in> set (map fst (filter (\<lambda>(k, ts). ts < (c::int)) al))
         \<longleftrightarrow> (\<exists>ts. map_of al h = Some ts \<and> ts < c)"
  using assms by (auto simp: map_of_eq_Some_iff image_iff)

lemma time_diff_le_iff:
  "\<bar>rat_of_int (t - f) / 1000000 / 3600\<bar> \<le> rat_of_int dedup_window_hours
     \<longleftrightarrow> \<bar>t - f\<bar> \<le> timedelta_hours 24"
proof -
  have "\<bar>rat_of_int (t - f) / 1000000 / 3600\<bar> = rat_of_int \<bar>t - f\<bar> / 3600000000"
    by (simp add: abs_divide)
  moreover have "rat_of_int \<bar>t - f\<bar> / 3600000000 \<le> 24 \<longleftrightarrow> rat_of_int \<bar>t - f\<bar> \<le> rat_of_int 86400000000"
    by (simp add: divide_le_eq)
  ultimately show ?thesis
    unfolding of_int_le_iff by (simp add: dedup_window_hours_def timedelta_hours_def)
qed

lemma cleanup_timestamps:
  assumes "distinct (map fst (hash_timestamps s))"
  shows "map_of (hash_timestamps (cleanup_old_hashes s (Some t))) h =
     (if length (hash_timestamps s) > dedup_cleanup_threshold
         \<and> (\<exists>ts. map_of (hash_timestamps s) h = Some ts \<and> ts < t - timedelta_hours 48)
      then None else map_of (hash_timestamps s) h)"
  using old_hash_iff [OF assms, of h "t - timedelta_hours 48"]
  by (auto simp add: cleanup_old_hashes_def Let_def fold_forget_hash_timestamps map_of_filter_keys
      dedup_window_hours_def simp del: set_map)

lemma cleanup_hashes:
  assumes "distinct (map fst (hash_timestamps s))"
  shows "h \<in> global_processed_hashes (cleanup_old_hashes s (Some t)) \<longleftrightarrow>
     h \<in> global_processed_hashes s \<and>
     \<not> (length (hash_timestamps s) > dedup_cleanup_threshold
         \<and> (\<exists>ts. map_of (hash_timestamps s) h = Some ts \<and> ts < t - timedelta_hours 48))"
  using old_hash_iff [OF assms, of h "t - timedelta_hours 48"]
  by (auto simp add: cleanup_old_hashes_def Let_def fold_forget_hash_hashes
      dedup_window_hours_def simp del: set_map)

lemma mark_processed_distinct:
  "distinct (map fst (hash_timestamps s)) \<Longrightarrow>
   distinct (map fst (hash_timestamps (mark_processed s uh ct)))"
  by (simp add: mark_processed_def distinct_update split: option.split)

lemma admit_keys_unique: "keys_unique s \<Longrightarrow> keys_unique (snd (admit s data))"
  by (auto simp: keys_unique_def admit_def Let_def cleanup_old_hashes_def
      fold_forget_hash_timestamps mark_processed_distinct distinct_map_filter split: option.split)

lemma initial_keys_unique: "keys_unique initial_state"
  by (simp add: keys_unique_def initial_state_def)


lemmas admit_eval =
  admit_def skip_duplicate_def mark_processed_def cleanup_old_hashes_def create_unique_hash_def
  current_timestamp_of_def initial_state_def example_event_def dedup_window_hours_def
  dedup_cleanup_threshold_def timedelta_hours_def Let_def

text \<open>
  Claim C1. When the fingerprint of an entry is among the processed ones, a first-seen
  timestamp is stored for it and the entry has a timestamp, the entry is admitted
  exactly when the two timestamps lie more than 24 hours apart, and the admission
  stores the new timestamp as first seen. Of two entries with one fingerprint, one hour
  apart, only the first is admitted; 30 hours apart, both are.
\<close>

theorem dedup_window_aged_out:
  "(keys_unique s \<and> create_unique_hash data = Some h \<and> h \<in> global_processed_hashes s
     \<and> map_of (hash_timestamps s) h = Some first_seen \<and> current_timestamp_of data = Some t
    \<longrightarrow> (fst (admit s data) \<longleftrightarrow> \<bar>t - first_seen\<bar> > timedelta_hours 24)
        \<and> (fst (admit s data) \<longrightarrow> map_of (hash_timestamps (snd (admit s data))) h = Some t))
   \<and> admit_stream initial_state
        [example_event (Timestamp 0 ''2025-06-01''),
         example_event (Timestamp (timedelta_hours 1) ''2025-06-01'')] = [True, False]
   \<and> admit_stream initial_state
        [example_event (Timestamp 0 ''2025-06-01''),
         example_event (Timestamp (timedelta_hours 30) ''2025-06-02'')] = [True, True]"
proof (intro conjI impI)
  assume a: "keys_unique s \<and> create_unique_hash data = Some h \<and> h \<in> global_processed_hashes s
     \<and> map_of (hash_timestamps s) h = Some first_seen \<and> current_timestamp_of data = Some t"
  then have ne: "h \<noteq> []"
    by (auto dest: create_unique_hash_not_empty)
  from a ne have skip: "skip_duplicate s (Some h) (Some t) \<longleftrightarrow> \<bar>t - first_seen\<bar> \<le> timedelta_hours 24"
    unfolding skip_duplicate_def time_diff_le_iff by simp
  from a skip show "fst (admit s data) \<longleftrightarrow> \<bar>t - first_seen\<bar> > timedelta_hours 24"
    by (auto simp: admit_def Let_def)
  assume adm: "fst (admit s data)"
  let ?m = "mark_processed s (Some h) (Some t)"
  from a have d: "distinct (map fst (hash_timestamps ?m))"
    by (simp add: keys_unique_def mark_processed_distinct)
  have m: "map_of (hash_timestamps ?m) h = Some t"
    using ne by (simp add: mark_processed_def update_conv')
  have "map_of (hash_timestamps (cleanup_old_hashes ?m (Some t))) h = Some t"
    by (simp add: cleanup_timestamps [OF d] m timedelta_hours_def)
  with a adm show "map_of (hash_timestamps (snd (admit s data))) h = Some t"
    by (auto simp: admit_def Let_def split: if_splits)
next
  show "admit_stream initial_state
        [example_event (Timestamp 0 ''2025-06-01''),
         example_event (Timestamp (timedelta_hours 1) ''2025-06-01'')] = [True, False]"
    by (simp add: admit_eval)
next
  show "admit_stream initial_state
        [example_event (Timestamp 0 ''2025-06-01''),
         example_event (Timestamp (timedelta_hours 30) ''2025-06-02'')] = [True, True]"
    by (simp add: admit_eval)
qed

definition seen_once :: state where
  "seen_once = snd (admit initial_state (example_event (Timestamp 0 ''2025-06-01'')))"

lemma seen_once_eq:
  "seen_once = initial_state\<lparr>global_processed_hashes := {''msg_1:req_1''},
      hash_timestamps := [(''msg_1:req_1'', 0)]\<rparr>"
  by (simp add: seen_once_def admit_eval)

theorem dedup_window_aged_out_witness:
  "keys_unique seen_once
   \<and> create_unique_hash (example_event (Timestamp (timedelta_hours 30) ''2025-06-02''))
       = Some ''msg_1:req_1''
   \<and> ''msg_1:req_1'' \<in> global_processed_hashes seen_once
   \<and> map_of (hash_timestamps seen_once) ''msg_1:req_1'' = Some 0
   \<and> current_timestamp_of (example_event (Timestamp (timedelta_hours 30) ''2025-06-02''))
       = Some (timedelta_hours 30)
   \<and> fst (admit seen_once (example_event (Timestamp (timedelta_hours 30) ''2025-06-02'')))
   \<and> map_of (hash_timestamps
        (snd (admit seen_once (example_event (Timestamp (timedelta_hours 30) ''2025-06-02'')))))
        ''msg_1:req_1'' = Some (timedelta_hours 30)
   \<and> \<not> fst (admit seen_once (example_event (Timestamp (timedelta_hours 1) ''2025-06-01'')))"
  using dedup_window_aged_out [where s = seen_once
      and data = "example_event (Timestamp (timedelta_hours 30) ''2025-06-02'')"
      and h = "''msg_1:req_1''" and first_seen = 0 and t = "timedelta_hours 30"]
    dedup_window_aged_out [where s = seen_once
      and data = "example_event (Timestamp (timedelta_hours 1) ''2025-06-01'')"
      and h = "''msg_1:req_1''" and first_seen = 0 and t = "timedelta_hours 1"]
  by (simp add: seen_once_eq keys_unique_def create_unique_hash_def current_timestamp_of_def
      example_event_def timedelta_hours_def initial_state_def)

text \<open>
  Claim C5. An entry without a fingerprint is always admitted. An entry whose
  fingerprint is among the processed ones is rejected when it has no timestamp that
  parses or when no first-seen timestamp is stored, whatever time has passed. Of two
  entries with one fingerprint and timestamps that do not parse, only the first is
  admitted.
\<close>

theorem dedup_missing_parts:
  "(create_unique_hash data = None \<longrightarrow> fst (admit s data))
   \<and> (create_unique_hash data = Some h \<and> h \<in> global_processed_hashes s
       \<and> (current_timestamp_of data = None \<or> map_of (hash_timestamps s) h = None)
      \<longrightarrow> \<not> fst (admit s data))
   \<and> admit_stream initial_state
        [example_event Timestamp_malformed, example_event Timestamp_malformed] = [True, False]"
proof (intro conjI impI)
  assume "create_unique_hash data = None"
  then show "fst (admit s data)"
    by (simp add: admit_def skip_duplicate_def Let_def)
next
  assume a: "create_unique_hash data = Some h \<and> h \<in> global_processed_hashes s
       \<and> (current_timestamp_of data = None \<or> map_of (hash_timestamps s) h = None)"
  then have "h \<noteq> []"
    by (auto dest: create_unique_hash_not_empty)
  with a have "skip_duplicate s (Some h) (current_timestamp_of data)"
    by (auto simp: skip_duplicate_def split: option.splits)
  with a show "\<not> fst (admit s data)"
    by (simp add: admit_def Let_def)
next
  show "admit_stream initial_state
        [example_event Timestamp_malformed, example_event Timestamp_malformed] = [True, False]"
    by (simp add: admit_eval)
qed


definition seen_untimed :: state where
  "seen_untimed = snd (admit initial_state (example_event Timestamp_malformed))"

lemma seen_untimed_eq:
  "seen_untimed = initial_state\<lparr>global_processed_hashes := {''msg_1:req_1''}\<rparr>"
  by (simp add: seen_untimed_def admit_eval)

theorem dedup_missing_parts_witness:
  "create_unique_hash ((example_event (Timestamp 0 ''2025-06-01''))\<lparr>requestId := None\<rparr>) = None
   \<and> fst (admit seen_once ((example_event (Timestamp 0 ''2025-06-01''))\<lparr>requestId := None\<rparr>))
   \<and> ''msg_1:req_1'' \<in> global_processed_hashes seen_once
   \<and> current_timestamp_of (example_event Timestamp_malformed) = None
   \<and> \<not> fst (admit seen_once (example_event Timestamp_malformed))
   \<and> ''msg_1:req_1'' \<in> global_processed_hashes seen_untimed
   \<and> map_of (hash_timestamps seen_untimed) ''msg_1:req_1'' = None
   \<and> \<not> fst (admit seen_untimed (example_event (Timestamp (timedelta_hours 30) ''2025-06-02'')))"
  using dedup_missing_parts [where s = seen_once
      and data = "(example_event (Timestamp 0 ''2025-06-01''))\<lparr>requestId := None\<rparr>"]
    dedup_missing_parts [where s = seen_once and data = "example_event Timestamp_malformed"
      and h = "''msg_1:req_1''"]
    dedup_missing_parts [where s = seen_untimed
      and data = "example_event (Timestamp (timedelta_hours 30) ''2025-06-02'')"
      and h = "''msg_1:req_1''"]
  by (simp add: seen_once_eq seen_untimed_eq create_unique_hash_def current_timestamp_of_def
      example_event_def initial_state_def)

text \<open>
  Claim C7. Let an entry with timestamp \<open>t\<close> be admitted, and let the dictionary of
  first-seen timestamps, after the entry is marked, hold more than 10000 entries. Then
  every entry of it that is older than \<open>t\<close> minus twice the window (48 hours) is gone
  from the dictionary and from the set of processed fingerprints after the step, and
  every other entry is kept with its timestamp.
\<close>

theorem cleanup_evicts_old:
  assumes "keys_unique s"
    and "fst (admit s data)"
    and "current_timestamp_of data = Some t"
    and "length (hash_timestamps (mark_processed s (create_unique_hash data) (Some t)))
           > dedup_cleanup_threshold"
    and "map_of (hash_timestamps (mark_processed s (create_unique_hash data) (Some t))) h
           = Some first_seen"
  shows "(first_seen < t - timedelta_hours (2 * dedup_window_hours) \<longrightarrow>
            map_of (hash_timestamps (snd (admit s data))) h = None
            \<and> h \<notin> global_processed_hashes (snd (admit s data)))
       \<and> (t - timedelta_hours (2 * dedup_window_hours) \<le> first_seen \<longrightarrow>
            map_of (hash_timestamps (snd (admit s data))) h = Some first_seen
            \<and> (h \<in> global_processed_hashes
                      (mark_processed s (create_unique_hash data) (Some t))
                 \<longrightarrow> h \<in> global_processed_hashes (snd (admit s data))))"
proof -
  let ?m = "mark_processed s (create_unique_hash data) (Some t)"
  have w: "timedelta_hours (2 * dedup_window_hours) = timedelta_hours 48"
    by (simp add: dedup_window_hours_def)
  from assms(1) have d: "distinct (map fst (hash_timestamps ?m))"
    by (simp add: keys_unique_def mark_processed_distinct)
  from assms(2,3) have s': "snd (admit s data) = cleanup_old_hashes ?m (Some t)"
    by (auto simp: admit_def Let_def split: if_splits)
  show ?thesis
    unfolding s' w using assms(4,5)
    by (simp add: cleanup_timestamps [OF d] cleanup_hashes [OF d])
qed

definition filler_hashes :: "(string \<times> int) list" where
  "filler_hashes = map (\<lambda>i. (replicate (Suc i) CHR ''h'', timedelta_hours 100)) [0..<9999]"

definition crowded :: state where
  "crowded =
     initial_state
       \<lparr>global_processed_hashes := insert ''old'' (insert ''recent'' (set (map fst filler_hashes))),
        hash_timestamps := (''old'', 0) # (''recent'', timedelta_hours 60) # filler_hashes\<rparr>"

lemma length_filler_hashes: "length filler_hashes = 9999"
  by (simp add: filler_hashes_def)

lemma filler_key: "k \<in> fst ` set filler_hashes \<Longrightarrow> set k = {CHR ''h''}"
  by (auto simp: filler_hashes_def)

lemma distinct_filler_hashes: "distinct (map fst filler_hashes)"
proof -
  have "inj_on (\<lambda>i. replicate (Suc i) CHR ''h'') (set [0..<9999])"
    by (rule inj_onI) (metis length_replicate nat.inject)
  then show ?thesis
    by (simp add: filler_hashes_def comp_def distinct_map del: replicate.simps)
qed

lemma not_filler_keys:
  "''old'' \<notin> fst ` set filler_hashes" "''recent'' \<notin> fst ` set filler_hashes"
  "''msg_1:req_1'' \<notin> fst ` set filler_hashes"
  using filler_key by fastforce+


lemma length_alist_update:
  "length (AList.update k v al) = (if k \<in> fst ` set al then length al else Suc (length al))"
  by (induction al) auto

definition late_event :: entry where
  "late_event = example_event (Timestamp (timedelta_hours 100) ''2025-06-05'')"

lemma late_event_hash: "create_unique_hash late_event = Some ''msg_1:req_1''"
  by (simp add: late_event_def example_event_def create_unique_hash_def)

lemma late_event_time: "current_timestamp_of late_event = Some (timedelta_hours 100)"
  by (simp add: late_event_def example_event_def current_timestamp_of_def)

lemma crowded_keys_unique: "keys_unique crowded"
  using not_filler_keys distinct_filler_hashes
  by (simp add: keys_unique_def crowded_def initial_state_def)

lemma crowded_admits: "fst (admit crowded late_event)"
  using not_filler_keys
  by (simp add: admit_def Let_def late_event_hash skip_duplicate_def crowded_def
      initial_state_def)

lemma crowded_marked:
  "hash_timestamps (mark_processed crowded (Some ''msg_1:req_1'') (Some (timedelta_hours 100)))
     = (''old'', 0) # (''recent'', timedelta_hours 60)
       # AList.update ''msg_1:req_1'' (timedelta_hours 100) filler_hashes"
  "global_processed_hashes
     (mark_processed crowded (Some ''msg_1:req_1'') (Some (timedelta_hours 100)))
     = insert ''msg_1:req_1'' (insert ''old'' (insert ''recent'' (fst ` set filler_hashes)))"
  by (simp_all add: mark_processed_def crowded_def initial_state_def)

theorem cleanup_evicts_old_witness:
  "keys_unique crowded
   \<and> fst (admit crowded late_event)
   \<and> current_timestamp_of late_event = Some (timedelta_hours 100)
   \<and> length (hash_timestamps
        (mark_processed crowded (create_unique_hash late_event) (Some (timedelta_hours 100))))
       = 10002
   \<and> map_of (hash_timestamps (snd (admit crowded late_event))) ''old'' = None
   \<and> ''old'' \<notin> global_processed_hashes (snd (admit crowded late_event))
   \<and> map_of (hash_timestamps (snd (admit crowded late_event))) ''recent''
       = Some (timedelta_hours 60)
   \<and> ''recent'' \<in> global_processed_hashes (snd (admit crowded late_event))"
proof -
  let ?m = "mark_processed crowded (create_unique_hash late_event) (Some (timedelta_hours 100))"
  have len: "length (hash_timestamps ?m) = 10002"
    using not_filler_keys
    by (simp add: late_event_hash crowded_marked length_alist_update length_filler_hashes)
  then have big: "length (hash_timestamps ?m) > dedup_cleanup_threshold"
    by (simp add: dedup_cleanup_threshold_def)
  have old: "map_of (hash_timestamps ?m) ''old'' = Some 0"
    and recent: "map_of (hash_timestamps ?m) ''recent'' = Some (timedelta_hours 60)"
    and recent_in: "''recent'' \<in> global_processed_hashes ?m"
    by (simp_all add: late_event_hash crowded_marked)
  from cleanup_evicts_old [OF crowded_keys_unique crowded_admits late_event_time big old]
    cleanup_evicts_old [OF crowded_keys_unique crowded_admits late_event_time big recent]
    crowded_keys_unique crowded_admits late_event_time len recent_in
  show ?thesis
    by (simp add: timedelta_hours_def dedup_window_hours_def)
qed

subsection \<open>Sessions without cost, input or output\<close>

text \<open>
  A small corpus for the examples: a session with one ordinary entry, and a session
  whose only entry has cache tokens alone, which the example price table does not
  charge.
\<close>

definition usage_entry :: "string option \<Rightarrow> timestamp_field \<Rightarrow> usage \<Rightarrow> line" where
  "usage_entry message_id ts u =
     Object \<lparr>timestamp = ts, msg_id = message_id, requestId = Some ''req_1'',
       msg_usage = Usage u, msg_model = Some ''claude-example'', costUSD = Cost_absent\<rparr>"

definition cache_only_usage :: usage where
  "cache_only_usage =
     \<lparr>input_tokens = 0, output_tokens = 0, cache_creation_input_tokens = 500,
      cache_read_input_tokens = 40\<rparr>"

definition alpha_dir :: session_path where
  "alpha_dir = \<lparr>path_parent = ''/home/user/.claude/projects'', path_name = ''-home-user-alpha''\<rparr>"

definition beta_dir :: session_path where
  "beta_dir = \<lparr>path_parent = ''/home/user/.claude/vms/one/projects'', path_name = ''-home-user-beta''\<rparr>"

definition alpha_file :: jsonl_file where
  "alpha_file =
     \<lparr>st_mtime = Some 7200000000,
      file_lines = Some [Blank, usage_entry (Some ''msg_1'') (Timestamp 3600000000 ''2025-06-01'') example_usage]\<rparr>"

definition cache_file :: jsonl_file where
  "cache_file =
     \<lparr>st_mtime = Some 9000000000,
      file_lines = Some [Invalid_json, usage_entry None (Timestamp 8000000000 ''2025-06-01'') cache_only_usage]\<rparr>"

definition daily_options :: options where
  "daily_options = \<lparr>command = ''daily'', last_limit = None\<rparr>"

lemmas corpus_eval =
  aggregate_data_parallel_def process_files_with_global_dedup_def accumulate_def
  sort_all_files_by_timestamp_def sort_keys_def get_earliest_timestamp_def
  process_file_def process_line_def should_stop_early_def aggregate_def activity_date_of_def
  need_timestamps_def later_activity_def new_session_data_def skipped_as_empty_def
  session_result_of_def extract_session_info_def
  admit_def skip_duplicate_def mark_processed_def cleanup_old_hashes_def create_unique_hash_def
  current_timestamp_of_def initial_state_def dedup_window_hours_def
  dedup_cleanup_threshold_def timedelta_hours_def Let_def
  calculate_entry_cost_def calculate_cost_from_tokens_def add_token_cost_def
  get_pricing_data_def example_pricing_def example_usage_def
  usage_entry_def cache_only_usage_def alpha_dir_def beta_dir_def alpha_file_def cache_file_def
  daily_options_def

text \<open>
  Claim C10. The returned list is built from the accumulated sessions by leaving out
  exactly those whose total cost, input tokens and output tokens are all zero: no
  returned session has all three zero, and the returned and the omitted sessions
  together are all accumulated ones. The cache totals play no part in the test, so a
  session whose only nonzero totals are cache tokens is left out; every output view is
  computed from the returned list.
\<close>

theorem empty_sessions_omitted:
  "process_files_with_global_dedup pricing_data cost_mode sorted_file_tuples opts =
     map session_result_of
       (filter (\<lambda>(session_dir, sd). \<not> skipped_as_empty sd)
          (sessions_by_dir (accumulate pricing_data cost_mode sorted_file_tuples opts)))
   \<and> (\<forall>r \<in> set (process_files_with_global_dedup pricing_data cost_mode sorted_file_tuples opts).
         \<not> (totalCost r = 0 \<and> inputTokens r = 0 \<and> outputTokens r = 0))
   \<and> (\<forall>(session_dir, sd) \<in>
           set (sessions_by_dir (accumulate pricing_data cost_mode sorted_file_tuples opts)).
         skipped_as_empty sd \<longleftrightarrow>
           total_cost sd = 0 \<and> sum_input_tokens sd = 0 \<and> sum_output_tokens sd = 0)
   \<and> length (process_files_with_global_dedup pricing_data cost_mode sorted_file_tuples opts)
       + length (filter (\<lambda>(session_dir, sd). skipped_as_empty sd)
           (sessions_by_dir (accumulate pricing_data cost_mode sorted_file_tuples opts)))
       = length (sessions_by_dir (accumulate pricing_data cost_mode sorted_file_tuples opts))"
proof (intro conjI)
  let ?sessions = "sessions_by_dir (accumulate pricing_data cost_mode sorted_file_tuples opts)"
  show eq: "process_files_with_global_dedup pricing_data cost_mode sorted_file_tuples opts =
     map session_result_of (filter (\<lambda>(session_dir, sd). \<not> skipped_as_empty sd) ?sessions)"
    by (simp add: process_files_with_global_dedup_def)
  show "\<forall>r \<in> set (process_files_with_global_dedup pricing_data cost_mode sorted_file_tuples opts).
         \<not> (totalCost r = 0 \<and> inputTokens r = 0 \<and> outputTokens r = 0)"
    unfolding eq
    by (auto simp: session_result_of_def Let_def case_prod_unfold skipped_as_empty_def)
  show "\<forall>(session_dir, sd) \<in> set ?sessions.
         skipped_as_empty sd \<longleftrightarrow>
           total_cost sd = 0 \<and> sum_input_tokens sd = 0 \<and> sum_output_tokens sd = 0"
    by (simp add: skipped_as_empty_def)
  show "length (process_files_with_global_dedup pricing_data cost_mode sorted_file_tuples opts)
       + length (filter (\<lambda>(session_dir, sd). skipped_as_empty sd) ?sessions)
       = length ?sessions"
    unfolding eq length_map
    using sum_length_filter_compl [of "\<lambda>(session_dir, sd). skipped_as_empty sd" ?sessions]
    by (simp add: case_prod_unfold)
qed

lemma cache_only_accumulated:
  "map (\<lambda>(session_dir, sd).
          (path_name session_dir, total_cost sd, sum_input_tokens sd, sum_output_tokens sd,
           cache_creation_tokens sd, cache_read_tokens sd))
     (sessions_by_dir (accumulate (get_pricing_data (Some example_pricing)) ''auto''
        [(alpha_file, alpha_dir), (cache_file, beta_dir)] daily_options)) =
   [(''-home-user-alpha'', 7, 2000000, 1000000, 10, 20), (''-home-user-beta'', 0, 0, 0, 500, 40)]"
  by (simp add: corpus_eval)

lemma cache_only_result:
  "process_files_with_global_dedup (get_pricing_data (Some example_pricing)) ''auto''
     [(alpha_file, alpha_dir), (cache_file, beta_dir)] daily_options =
   [\<lparr>sessionId = ''-home-user-alpha'', projectPath = ''alpha'', inputTokens = 2000000,
     outputTokens = 1000000, cacheCreationTokens = 10, cacheReadTokens = 20, totalCost = 7,
     lastActivity = ''2025-06-01'', modelsUsed = {''claude-example''}\<rparr>]"
  by (simp add: corpus_eval)

theorem empty_sessions_omitted_witness:
  "map sessionId
     (process_files_with_global_dedup (get_pricing_data (Some example_pricing)) ''auto''
        [(alpha_file, alpha_dir), (cache_file, beta_dir)] daily_options) = [''-home-user-alpha'']
   \<and> map (\<lambda>(session_dir, sd).
          (path_name session_dir, total_cost sd, sum_input_tokens sd, sum_output_tokens sd,
           cache_creation_tokens sd, cache_read_tokens sd))
       (sessions_by_dir (accumulate (get_pricing_data (Some example_pricing)) ''auto''
          [(alpha_file, alpha_dir), (cache_file, beta_dir)] daily_options)) =
     [(''-home-user-alpha'', 7, 2000000, 1000000, 10, 20), (''-home-user-beta'', 0, 0, 0, 500, 40)]
   \<and> length (filter (\<lambda>(session_dir, sd). skipped_as_empty sd)
         (sessions_by_dir (accumulate (get_pricing_data (Some example_pricing)) ''auto''
            [(alpha_file, alpha_dir), (cache_file, beta_dir)] daily_options))) = 1"
proof (intro conjI)
  note omitted = empty_sessions_omitted
    [where pricing_data = "get_pricing_data (Some example_pricing)" and cost_mode = "''auto''"
      and sorted_file_tuples = "[(alpha_file, alpha_dir), (cache_file, beta_dir)]"
      and opts = daily_options]
  show "map sessionId
     (process_files_with_global_dedup (get_pricing_data (Some example_pricing)) ''auto''
        [(alpha_file, alpha_dir), (cache_file, beta_dir)] daily_options) = [''-home-user-alpha'']"
    by (simp add: cache_only_result)
  show acc: "map (\<lambda>(session_dir, sd).
          (path_name session_dir, total_cost sd, sum_input_tokens sd, sum_output_tokens sd,
           cache_creation_tokens sd, cache_read_tokens sd))
       (sessions_by_dir (accumulate (get_pricing_data (Some example_pricing)) ''auto''
          [(alpha_file, alpha_dir), (cache_file, beta_dir)] daily_options)) =
     [(''-home-user-alpha'', 7, 2000000, 1000000, 10, 20), (''-home-user-beta'', 0, 0, 0, 500, 40)]"
    by (rule cache_only_accumulated)
  have "length (sessions_by_dir (accumulate (get_pricing_data (Some example_pricing)) ''auto''
          [(alpha_file, alpha_dir), (cache_file, beta_dir)] daily_options)) = 2"
    using arg_cong [OF acc, of length] by simp
  with omitted
  show "length (filter (\<lambda>(session_dir, sd). skipped_as_empty sd)
         (sessions_by_dir (accumulate (get_pricing_data (Some example_pricing)) ''auto''
            [(alpha_file, alpha_dir), (cache_file, beta_dir)] daily_options))) = 1"
    by (simp add: cache_only_result)
qed

subsection \<open>Repeated aggregation of one corpus\<close>

lemma filter_same_key:
  "distinct (map f xs) \<Longrightarrow> k \<in> set xs \<Longrightarrow> filter (\<lambda>x. f k = f x) xs = [k]"
proof (induction xs)
  case Nil
  then show ?case by simp
next
  case (Cons x xs)
  show ?case
  proof (cases "k = x")
    case True
    with Cons.prems have "filter (\<lambda>y. f k = f y) xs = []"
      by (auto simp: filter_empty_conv)
    with True show ?thesis by simp
  next
    case False
    with Cons.prems have "k \<in> set xs" and "f k \<noteq> f x" and "distinct (map f xs)"
      by (auto simp: image_iff)
    with Cons.IH show ?thesis by simp
  qed
qed

lemma sort_key_permutation:
  assumes "mset ys = mset xs" and "distinct (map f xs)"
  shows "sort_key f ys = sort_key f xs"
proof (rule properties_for_sort_key)
  show "mset (sort_key f xs) = mset ys"
    using assms(1) by simp
  show "sorted (map f (sort_key f xs))"
    by simp
  fix k
  assume k: "k \<in> set (sort_key f xs)"
  have "mset (map f ys) = mset (map f xs)"
    using assms(1) by simp
  then have dy: "distinct (map f ys)"
    using assms(2) by (metis mset_eq_imp_distinct_iff)
  have ky: "k \<in> set ys"
    using k assms(1) by (metis mset_eq_setD set_sort)
  have "filter (\<lambda>x. f k = f x) (sort_key f xs) = sort_key f (filter (\<lambda>x. f k = f x) xs)"
    by (simp add: filter_sort)
  also have "\<dots> = [k]"
    using k assms(2) by (simp add: filter_same_key)
  also have "\<dots> = filter (\<lambda>x. f k = f x) ys"
    using dy ky by (simp add: filter_same_key)
  finally show "filter (\<lambda>x. f k = f x) (sort_key f xs) = filter (\<lambda>x. f k = f x) ys" .
qed

lemma sort_all_files_permutation:
  assumes "mset enumeration' = mset enumeration"
    and "distinct (map (\<lambda>(jsonl_file, session_dir). sort_keys (length enumeration) jsonl_file)
           enumeration)"
  shows "sort_all_files_by_timestamp enumeration' = sort_all_files_by_timestamp enumeration"
proof -
  let ?g = "\<lambda>(jsonl_file, session_dir).
              (jsonl_file, session_dir, sort_keys (length enumeration) jsonl_file)"
  let ?key = "\<lambda>(jsonl_file :: jsonl_file, session_dir :: session_path, keys :: int \<times> int). keys"
  have len: "length enumeration' = length enumeration"
    using assms(1) by (metis size_mset)
  have "mset (map ?g enumeration') = mset (map ?g enumeration)"
    using assms(1) by simp
  moreover have "distinct (map ?key (map ?g enumeration))"
    using assms(2) by (simp add: comp_def case_prod_unfold)
  ultimately have "sort_key ?key (map ?g enumeration') = sort_key ?key (map ?g enumeration)"
    by (rule sort_key_permutation)
  then show ?thesis
    by (simp add: sort_all_files_by_timestamp_def len)
qed

definition small_usage :: "int \<Rightarrow> usage" where
  "small_usage n =
     \<lparr>input_tokens = n, output_tokens = 0, cache_creation_input_tokens = 0,
      cache_read_input_tokens = 0\<rparr>"

definition shared_entry :: line where
  "shared_entry = usage_entry (Some ''msg_1'') (Timestamp 3600000000 ''2025-06-01'') example_usage"

definition fork_a :: jsonl_file where
  "fork_a =
     \<lparr>st_mtime = Some 7200000000,
      file_lines =
        Some [shared_entry,
              usage_entry (Some ''msg_2'') (Timestamp 3700000000 ''2025-06-01'') (small_usage 10)]\<rparr>"

definition fork_b :: jsonl_file where
  "fork_b =
     \<lparr>st_mtime = Some 7200000000,
      file_lines =
        Some [shared_entry,
              usage_entry (Some ''msg_3'') (Timestamp 3800000000 ''2025-06-01'') (small_usage 20)]\<rparr>"

lemmas fork_eval = corpus_eval small_usage_def shared_entry_def fork_a_def fork_b_def

lemma fork_keys:
  "sort_keys 2 fork_a = (7200000000, 3600000000)" "sort_keys 2 fork_b = (7200000000, 3600000000)"
  by (simp_all add: fork_eval)

lemma fork_a_first:
  "aggregate_data_parallel (get_pricing_data (Some example_pricing)) ''auto'' daily_options
     [(fork_a, alpha_dir), (fork_b, beta_dir)] =
   [\<lparr>sessionId = ''-home-user-alpha'', projectPath = ''alpha'', inputTokens = 2000010,
     outputTokens = 1000000, cacheCreationTokens = 10, cacheReadTokens = 20, totalCost = 700001 / 100000,
     lastActivity = ''2025-06-01'', modelsUsed = {''claude-example''}\<rparr>,
    \<lparr>sessionId = ''-home-user-beta'', projectPath = ''beta'', inputTokens = 20,
     outputTokens = 0, cacheCreationTokens = 0, cacheReadTokens = 0, totalCost = 1 / 50000,
     lastActivity = ''2025-06-01'', modelsUsed = {''claude-example''}\<rparr>]"
  by (simp add: fork_eval)

lemma fork_b_first:
  "aggregate_data_parallel (get_pricing_data (Some example_pricing)) ''auto'' daily_options
     [(fork_b, beta_dir), (fork_a, alpha_dir)] =
   [\<lparr>sessionId = ''-home-user-beta'', projectPath = ''beta'', inputTokens = 2000020,
     outputTokens = 1000000, cacheCreationTokens = 10, cacheReadTokens = 20, totalCost = 350001 / 50000,
     lastActivity = ''2025-06-01'', modelsUsed = {''claude-example''}\<rparr>,
    \<lparr>sessionId = ''-home-user-alpha'', projectPath = ''alpha'', inputTokens = 10,
     outputTokens = 0, cacheCreationTokens = 0, cacheReadTokens = 0, totalCost = 1 / 100000,
     lastActivity = ''2025-06-01'', modelsUsed = {''claude-example''}\<rparr>]"
  by (simp add: fork_eval)

text \<open>
  Claim C8, as stated, fails. The corpus has two files with the same modification time
  and the same earliest timestamp, in two session directories, and one entry with the
  same fingerprint in both. Enumerated in one order, the first session counts the
  shared entry; enumerated in the other, the second does.
\<close>

theorem aggregation_depends_on_enumeration_counterexample:
  "sort_keys 2 fork_a = sort_keys 2 fork_b
   \<and> map sessionId
     (aggregate_data_parallel (get_pricing_data (Some example_pricing)) ''auto'' daily_options
        [(fork_a, alpha_dir), (fork_b, beta_dir)]) = [''-home-user-alpha'', ''-home-user-beta'']
   \<and> map inputTokens
     (aggregate_data_parallel (get_pricing_data (Some example_pricing)) ''auto'' daily_options
        [(fork_a, alpha_dir), (fork_b, beta_dir)]) = [2000010, 20]
   \<and> map sessionId
     (aggregate_data_parallel (get_pricing_data (Some example_pricing)) ''auto'' daily_options
        [(fork_b, beta_dir), (fork_a, alpha_dir)]) = [''-home-user-beta'', ''-home-user-alpha'']
   \<and> map inputTokens
     (aggregate_data_parallel (get_pricing_data (Some example_pricing)) ''auto'' daily_options
        [(fork_b, beta_dir), (fork_a, alpha_dir)]) = [2000020, 10]
   \<and> aggregate_data_parallel (get_pricing_data (Some example_pricing)) ''auto'' daily_options
        [(fork_a, alpha_dir), (fork_b, beta_dir)]
     \<noteq> aggregate_data_parallel (get_pricing_data (Some example_pricing)) ''auto'' daily_options
        [(fork_b, beta_dir), (fork_a, alpha_dir)]"
  by (simp add: fork_a_first fork_b_first fork_keys)

text \<open>
  Claim C8, amended. An enumeration of the corpus is a list of its files with their
  session directories, in the order the discovery yields them; the code does not fix
  this order (\<open>discover_claude_paths\<close> returns \<open>list(paths)\<close> of a set of strings). When
  no two files have the same sort key, every enumeration of the corpus gives the same
  result: the same sessions with the same totals.
\<close>

theorem aggregation_independent_of_enumeration:
  assumes "mset enumeration' = mset enumeration"
    and "distinct (map (\<lambda>(jsonl_file, session_dir). sort_keys (length enumeration) jsonl_file)
           enumeration)"
  shows "aggregate_data_parallel pricing_data cost_mode opts enumeration'
       = aggregate_data_parallel pricing_data cost_mode opts enumeration"
  using sort_all_files_permutation [OF assms]
  by (simp add: aggregate_data_parallel_def)


theorem aggregation_independent_of_enumeration_witness:
  "mset [(cache_file, beta_dir), (alpha_file, alpha_dir)]
     = mset [(alpha_file, alpha_dir), (cache_file, beta_dir)]
   \<and> distinct (map (\<lambda>(jsonl_file, session_dir).
          sort_keys (length [(alpha_file, alpha_dir), (cache_file, beta_dir)]) jsonl_file)
        [(alpha_file, alpha_dir), (cache_file, beta_dir)])
   \<and> aggregate_data_parallel (get_pricing_data (Some example_pricing)) ''auto'' daily_options
        [(cache_file, beta_dir), (alpha_file, alpha_dir)]
     = aggregate_data_parallel (get_pricing_data (Some example_pricing)) ''auto'' daily_options
        [(alpha_file, alpha_dir), (cache_file, beta_dir)]"
proof -
  have p: "mset [(cache_file, beta_dir), (alpha_file, alpha_dir)]
     = mset [(alpha_file, alpha_dir), (cache_file, beta_dir)]"
    by simp
  have d: "distinct (map (\<lambda>(jsonl_file, session_dir).
          sort_keys (length [(alpha_file, alpha_dir), (cache_file, beta_dir)]) jsonl_file)
        [(alpha_file, alpha_dir), (cache_file, beta_dir)])"
    by (simp add: corpus_eval)
  from aggregation_independent_of_enumeration [OF p d] p d show ?thesis
    by blast
qed

subsection \<open>Months and days\<close>

definition example_result :: "string \<Rightarrow> string \<Rightarrow> rat \<Rightarrow> session_result" where
  "example_result name day cost =
     \<lparr>sessionId = name, projectPath = ''demo'', inputTokens = 100, outputTokens = 50,
      cacheCreationTokens = 0, cacheReadTokens = 0, totalCost = cost, lastActivity = day,
      modelsUsed = {''claude-example''}\<rparr>"

text \<open>
  Thirty-two sessions of one dollar each: one on every day of May 2025 and one on the
  first of June.
\<close>

definition may_days :: "string list" where
  "may_days =
     [''01'', ''02'', ''03'', ''04'', ''05'', ''06'', ''07'', ''08'', ''09'', ''10'',
      ''11'', ''12'', ''13'', ''14'', ''15'', ''16'', ''17'', ''18'', ''19'', ''20'',
      ''21'', ''22'', ''23'', ''24'', ''25'', ''26'', ''27'', ''28'', ''29'', ''30'', ''31'']"

definition may_and_june :: "session_result list" where
  "may_and_june =
     map (\<lambda>d. example_result (''-home-user-p'' @ d) (''2025-05-'' @ d) 1) may_days
     @ [example_result ''-home-user-june'' ''2025-06-01'' 1]"

text \<open>
  The days of a breakdown whose date starts with a month, the sessions of a list that
  fall on a date, and the sessions of a list whose date starts with a month.
\<close>

definition sessions_of_month :: "string \<Rightarrow> session_result list \<Rightarrow> session_result list" where
  "sessions_of_month m session_data =
     filter (\<lambda>s. take 7 (date_of_session s) = m) session_data"

definition days_of_month :: "string \<Rightarrow> day list \<Rightarrow> day list" where
  "days_of_month m daily_data = filter (\<lambda>d. take 7 (date d) = m) daily_data"

definition sessions_of_date :: "string \<Rightarrow> session_result list \<Rightarrow> session_result list" where
  "sessions_of_date day session_data = filter (\<lambda>s. date_of_session s = day) session_data"

definition cost_in :: "(string \<times> month_group) list \<Rightarrow> string \<Rightarrow> rat" where
  "cost_in groups m = (case map_of groups m of None \<Rightarrow> 0 | Some g \<Rightarrow> month_totalCost g)"

definition keyed_by_month :: "(string \<times> month_group) list \<Rightarrow> bool" where
  "keyed_by_month groups =
     (distinct (map fst groups) \<and> list_all (\<lambda>item. month (snd item) = fst item) groups)"

text \<open>
  What the two views do compute: a rollup is the sum over the days, of the list it is
  given, whose date starts with its month; a day is the sum over the sessions of its
  date.
\<close>

lemma slice_subset: "set (slice_to k xs) \<subseteq> set xs" "set (slice_from k xs) \<subseteq> set xs"
  by (auto simp: slice_to_def slice_from_def dest: in_set_takeD in_set_dropD)

lemma cost_in_add:
  "cost_in (add_to_monthly_groups d groups) m
     = cost_in groups m + (if take 7 (date d) = m then day_totalCost d else 0)"
  by (simp add: cost_in_def add_to_monthly_groups_def Let_def update_conv' split: option.split)

lemma cost_in_fold:
  "cost_in (fold add_to_monthly_groups daily_data groups) m
     = cost_in groups m + sum_list (map day_totalCost (days_of_month m daily_data))"
  by (induction daily_data arbitrary: groups) (simp_all add: cost_in_add days_of_month_def)

lemma in_update_cases:
  "(a, b) \<in> set (AList.update k v al) \<Longrightarrow> (a = k \<and> b = v) \<or> (a, b) \<in> set al"
  by (induction al) (auto split: if_splits)

lemma keyed_add: "keyed_by_month groups \<Longrightarrow> keyed_by_month (add_to_monthly_groups d groups)"
  by (auto simp: keyed_by_month_def add_to_monthly_groups_def Let_def distinct_update
      list_all_iff dest!: in_update_cases)

lemma keyed_fold:
  "keyed_by_month groups \<Longrightarrow> keyed_by_month (fold add_to_monthly_groups daily_data groups)"
  by (induction daily_data arbitrary: groups) (simp_all add: keyed_add)

lemma monthly_group_total:
  assumes "r \<in> set (process_monthly_data daily_data limit)"
  shows "month_totalCost r = sum_list (map day_totalCost (days_of_month (month r) daily_data))"
proof -
  let ?groups = "fold add_to_monthly_groups daily_data []"
  have k: "keyed_by_month ?groups"
    by (rule keyed_fold) (simp add: keyed_by_month_def)
  from assms have "r \<in> set (map snd ?groups)"
    using slice_subset(2) by (fastforce simp: process_monthly_data_def Let_def)
  then obtain m where m: "(m, r) \<in> set ?groups"
    by auto
  with k have "month r = m" and "map_of ?groups m = Some r"
    by (auto simp: keyed_by_month_def list_all_iff)
  then have "month_totalCost r = cost_in ?groups (month r)"
    by (simp add: cost_in_def)
  moreover have "cost_in [] (month r) = 0"
    by (simp add: cost_in_def)
  ultimately show ?thesis
    by (simp add: cost_in_fold)
qed


definition members :: "(string \<times> session_result list) list \<Rightarrow> string \<Rightarrow> session_result list" where
  "members date_groups day = (case map_of date_groups day of None \<Rightarrow> [] | Some ss \<Rightarrow> ss)"

lemma members_add:
  "members (add_to_date_groups s date_groups) day
     = members date_groups day @ (if date_of_session s = day then [s] else [])"
  by (simp add: members_def add_to_date_groups_def update_conv' split: option.split)

lemma members_fold:
  "members (fold add_to_date_groups session_data date_groups) day
     = members date_groups day @ sessions_of_date day session_data"
  by (induction session_data arbitrary: date_groups)
    (simp_all add: members_add sessions_of_date_def)

lemma distinct_dates_fold:
  "distinct (map fst date_groups) \<Longrightarrow>
   distinct (map fst (fold add_to_date_groups session_data date_groups))"
  by (induction session_data arbitrary: date_groups)
    (simp_all add: add_to_date_groups_def distinct_update)

lemma set_sort_key_reverse: "set (sort_key_reverse f xs) = set xs"
  by (simp add: sort_key_reverse_def)

lemma day_total:
  assumes "d \<in> set (process_daily_with_projects session_data limit)"
  shows "day_totalCost d = sum_list (map totalCost (sessions_of_date (date d) session_data))"
proof -
  let ?groups = "fold add_to_date_groups session_data []"
  from assms have "d \<in> set (map day_of_group ?groups)"
    using slice_subset(1) by (fastforce simp: process_daily_with_projects_def Let_def
        set_sort_key_reverse)
  then obtain k ss where item: "(k, ss) \<in> set ?groups" and d: "d = day_of_group (k, ss)"
    by auto
  have "distinct (map fst ?groups)"
    by (rule distinct_dates_fold) simp
  with item have "map_of ?groups k = Some ss"
    by simp
  then have "ss = members ?groups k"
    by (simp add: members_def)
  also have "\<dots> = sessions_of_date k session_data"
    by (simp add: members_fold) (simp add: members_def)
  finally show ?thesis
    using d by (simp add: day_of_group_def Let_def)
qed

lemma may_rollup:
  "display_monthly may_and_june None =
     [\<lparr>month = ''2025-05'', month_totalCost = 29, month_totalSessions = 29\<rparr>,
      \<lparr>month = ''2025-06'', month_totalCost = 1, month_totalSessions = 1\<rparr>]"
  by code_simp

lemma may_days_kept:
  "map date (days_of_month ''2025-05'' (process_daily_with_projects may_and_june None))
     = map (\<lambda>d. ''2025-05-'' @ d) (rev (drop 2 may_days))"
  by code_simp

lemma may_days_all:
  "length (days_of_month ''2025-05'' (process_daily_with_projects may_and_june (Some 32))) = 31"
  "sum_list (map day_totalCost
     (days_of_month ''2025-05'' (process_daily_with_projects may_and_june (Some 32)))) = 31"
  by code_simp+

lemma may_sessions_all:
  "length (sessions_of_month ''2025-05'' may_and_june) = 31"
  "sum_list (map totalCost (sessions_of_month ''2025-05'' may_and_june)) = 31"
  by code_simp+

text \<open>
  Claim C3 says that the total cost of the monthly rollup of a month is the sum of the
  total costs of the daily breakdown over all dates that start with the month, both
  being views of the same sessions. The code does not do this. \<open>display_monthly\<close> sums the
  list \<open>process_daily_with_projects(data)\<close>, which without a limit keeps the 30 latest
  dates only (\<open>limit or 30\<close>), while \<open>process_monthly_data\<close> has a limit of its own, in
  months. On the thirty-two sessions above, the rollup of May 2025 is 29 of 29 sessions:
  the first two days of May are dropped with their sessions. The daily breakdown that
  shows every date has 31 days of May with a total of 31, and the sessions of May are 31
  with a total of 31.
\<close>

theorem monthly_rollup_misses_dates:
  "display_monthly may_and_june None =
     [\<lparr>month = ''2025-05'', month_totalCost = 29, month_totalSessions = 29\<rparr>,
      \<lparr>month = ''2025-06'', month_totalCost = 1, month_totalSessions = 1\<rparr>]
   \<and> length (days_of_month ''2025-05'' (process_daily_with_projects may_and_june None)) = 29
   \<and> length (days_of_month ''2025-05'' (process_daily_with_projects may_and_june (Some 32)))
       = 31
   \<and> sum_list (map day_totalCost
         (days_of_month ''2025-05'' (process_daily_with_projects may_and_june (Some 32)))) = 31
   \<and> length (sessions_of_month ''2025-05'' may_and_june) = 31
   \<and> sum_list (map totalCost (sessions_of_month ''2025-05'' may_and_june)) = 31"
  using arg_cong [OF may_days_kept, of length]
  by (simp add: may_rollup may_days_all may_sessions_all may_days_def)

subsection \<open>Burn rate of a session\<close>

text \<open>
  The usage entries of a file that the live loop counts: those with a timestamp not
  before the cutoff, each with its time and its tokens. Their tokens, and the number of
  calendar minutes from the minute of the earliest to the minute of the latest,
  both included.
\<close>

fun window_events :: "int \<Rightarrow> live_line list \<Rightarrow> (int \<times> int) list" where
  "window_events cutoff [] = []"
| "window_events cutoff (Live_object data # ls) =
     (case live_time data of
        Live_time t \<Rightarrow>
          if t < cutoff then []
          else (case live_usage data of Usage u \<Rightarrow> [(t, counted_tokens u)] | _ \<Rightarrow> [])
      | _ \<Rightarrow> [])
     @ window_events cutoff ls"
| "window_events cutoff (l # ls) = window_events cutoff ls"

definition window_tokens :: "(int \<times> int) list \<Rightarrow> int" where
  "window_tokens events = sum_list (map snd events)"

definition span_minutes :: "(int \<times> int) list \<Rightarrow> int" where
  "span_minutes events =
     minute_key_of (Max (set (map fst events))) - minute_key_of (Min (set (map fst events))) + 1"

definition tokens_in :: "(int \<times> int) list \<Rightarrow> int \<Rightarrow> int" where
  "tokens_in by_minute m = (case map_of by_minute m of None \<Rightarrow> 0 | Some n \<Rightarrow> n)"

lemma sum_update_add:
  "distinct (map fst al) \<Longrightarrow>
   sum_list (map snd (AList.update k (tokens_in al k + n) al)) = sum_list (map snd al) + n"
proof (induction al)
  case Nil
  then show ?case by (simp add: tokens_in_def)
next
  case (Cons p al)
  obtain k' v where p: "p = (k', v)" by (cases p)
  show ?case
  proof (cases "k' = k")
    case True
    with p show ?thesis by (simp add: tokens_in_def)
  next
    case False
    with p Cons show ?thesis by (simp add: tokens_in_def)
  qed
qed

text \<open>What the loop over the lines has established about the tokens.\<close>

definition tokens_tracked :: "live_session \<Rightarrow> (int \<times> int) list \<Rightarrow> bool" where
  "tokens_tracked s events =
     (distinct (map fst (tokens_by_minute s))
      \<and> fst ` set (tokens_by_minute s) = minute_key_of ` fst ` set events
      \<and> sum_list (map snd (tokens_by_minute s)) = window_tokens events
      \<and> total_tokens s = window_tokens events
      \<and> (events = [] \<longrightarrow> live_total_cost s = 0))"

lemma tokens_tracked_same:
  "tokens_by_minute s' = tokens_by_minute s \<Longrightarrow> total_tokens s' = total_tokens s \<Longrightarrow>
   live_total_cost s' = live_total_cost s \<Longrightarrow> tokens_tracked s events \<Longrightarrow>
   tokens_tracked s' events"
  by (simp add: tokens_tracked_def)

lemma live_line_step_no_event:
  assumes "window_events cutoff [l] = []" and "live_line_step pricing_data cutoff l s = Inr s'"
  shows "tokens_by_minute s' = tokens_by_minute s \<and> total_tokens s' = total_tokens s
    \<and> live_total_cost s' = live_total_cost s"
  using assms
  by (cases l)
    (auto simp: live_line_step_def Let_def
      split: live_timestamp.splits if_splits usage_field.splits)

lemma live_line_step_event:
  assumes "window_events cutoff [l] = [(t, n)]"
    and "live_line_step pricing_data cutoff l s = Inr s'"
  shows "tokens_by_minute s' =
           AList.update (minute_key_of t) (tokens_in (tokens_by_minute s) (minute_key_of t) + n)
             (tokens_by_minute s)
    \<and> total_tokens s' = total_tokens s + n"
  using assms
  by (cases l)
    (auto simp: live_line_step_def Let_def tokens_in_def
      split: live_timestamp.splits if_splits usage_field.splits)

lemma window_events_single:
  "window_events cutoff [l] = [] \<or> (\<exists>t n. window_events cutoff [l] = [(t, n)])"
  by (cases l) (auto split: live_timestamp.splits usage_field.splits)

lemma live_line_step_tracked:
  assumes "tokens_tracked s events" and "live_line_step pricing_data cutoff l s = Inr s'"
  shows "tokens_tracked s' (events @ window_events cutoff [l])"
proof -
  consider "window_events cutoff [l] = []"
    | t n where "window_events cutoff [l] = [(t, n)]"
    using window_events_single by blast
  then show ?thesis
  proof cases
    case 1
    with live_line_step_no_event [OF 1 assms(2)] assms(1) show ?thesis
      by (simp add: tokens_tracked_same)
  next
    case 2
    from assms(1) have d: "distinct (map fst (tokens_by_minute s))"
      and keys: "fst ` set (tokens_by_minute s) = minute_key_of ` fst ` set events"
      and sums: "sum_list (map snd (tokens_by_minute s)) = window_tokens events"
      and total: "total_tokens s = window_tokens events"
      by (simp_all add: tokens_tracked_def)
    from live_line_step_event [OF 2 assms(2)]
    have s': "tokens_by_minute s' =
           AList.update (minute_key_of t) (tokens_in (tokens_by_minute s) (minute_key_of t) + n)
             (tokens_by_minute s)"
      and tt: "total_tokens s' = total_tokens s + n"
      by simp_all
    have "distinct (map fst (tokens_by_minute s'))"
      using d by (simp add: s' distinct_update)
    moreover have "fst ` set (tokens_by_minute s')
        = minute_key_of ` fst ` set (events @ window_events cutoff [l])"
      using keys by (simp add: s' dom_update 2)
    moreover have "sum_list (map snd (tokens_by_minute s'))
        = window_tokens (events @ window_events cutoff [l])"
      using d sums by (simp add: s' sum_update_add 2 window_tokens_def)
    moreover have "total_tokens s' = window_tokens (events @ window_events cutoff [l])"
      using total by (simp add: tt 2 window_tokens_def)
    ultimately show ?thesis
      by (simp add: tokens_tracked_def 2)
  qed
qed

lemma window_events_append:
  "window_events cutoff (l # ls) = window_events cutoff [l] @ window_events cutoff ls"
  by (cases l) simp_all

lemma live_lines_tracked:
  "tokens_tracked s events \<Longrightarrow> live_lines pricing_data cutoff ls s = Inr s' \<Longrightarrow>
   tokens_tracked s' (events @ window_events cutoff ls)"
proof (induction ls arbitrary: s events)
  case Nil
  then show ?case by simp
next
  case (Cons l ls)
  from Cons.prems(2) obtain s1 where
    s1: "live_line_step pricing_data cutoff l s = Inr s1"
    and rest: "live_lines pricing_data cutoff ls s1 = Inr s'"
    by (auto split: sum.splits)
  from Cons.IH [OF live_line_step_tracked [OF Cons.prems(1) s1] rest] show ?case
    by (subst window_events_append) simp
qed


definition window_events_of :: "recent_file \<Rightarrow> (int \<times> int) list" where
  "window_events_of f =
     (case recent_lines f of None \<Rightarrow> [] | Some ls \<Rightarrow> window_events (utc_cutoff f) ls)"

lemma sum_list_map_sort:
  fixes g :: "'a::linorder \<Rightarrow> 'b::comm_monoid_add"
  shows "sum_list (map g (sort xs)) = sum_list (map g xs)"
proof -
  have "sum_list (map g (sort xs)) = sum_mset (image_mset g (mset (sort xs)))"
    by (metis mset_map sum_mset_sum_list)
  also have "\<dots> = sum_list (map g xs)"
    by (simp add: sum_mset_sum_list [symmetric])
  finally show ?thesis .
qed

lemma sum_list_lookup:
  assumes "distinct (map fst al)"
  shows "sum_list (map (tokens_in al) (map fst al)) = sum_list (map snd al)"
proof -
  have "sum_list (map (tokens_in al) (map fst al)) = sum_list (map (\<lambda>p. tokens_in al (fst p)) al)"
    by (simp add: comp_def)
  also have "\<dots> = sum_list (map snd al)"
    by (rule arg_cong [where f = sum_list], rule map_cong)
      (use assms in \<open>auto simp: tokens_in_def\<close>)
  finally show ?thesis .
qed

lemma sorted_hd_Min: "sorted xs \<Longrightarrow> xs \<noteq> [] \<Longrightarrow> hd xs = Min (set xs)"
  by (cases xs) (auto intro!: Min_eqI [symmetric])

lemma sorted_le_last: "sorted xs \<Longrightarrow> x \<in> set xs \<Longrightarrow> x \<le> last xs"
  by (induction xs) auto

lemma sorted_last_Max: "sorted xs \<Longrightarrow> xs \<noteq> [] \<Longrightarrow> last xs = Max (set xs)"
  by (auto intro!: Max_eqI [symmetric] sorted_le_last)

lemma burn_rate_tokens_span:
  assumes "distinct (map fst by_minute)" and "by_minute \<noteq> []"
  shows "fst (burn_rates by_minute cost)
       = rat_of_int (sum_list (map snd by_minute))
         / rat_of_int (Max (fst ` set by_minute) - Min (fst ` set by_minute) + 1)"
proof -
  let ?ks = "sort (map fst by_minute)"
  have tokens: "sum_list (map (\<lambda>m. case map_of by_minute m of None \<Rightarrow> 0 | Some n \<Rightarrow> n) ?ks)
      = sum_list (map snd by_minute)"
    using sum_list_lookup [OF assms(1)]
    by (simp only: sum_list_map_sort) (simp add: tokens_in_def [abs_def])
  have ne: "?ks \<noteq> []"
    using assms(2) by (metis length_0_conv length_map length_sort)
  have len: "1 \<le> length by_minute"
    using assms(2) by (cases by_minute) simp_all
  have hd: "hd ?ks = Min (fst ` set by_minute)" and last: "last ?ks = Max (fst ` set by_minute)"
    using sorted_hd_Min [of ?ks] sorted_last_Max [of ?ks] ne by simp_all
  show ?thesis
  proof (cases "2 \<le> length by_minute")
    case True
    with len show ?thesis
      unfolding burn_rates_def Let_def tokens hd last by simp
  next
    case False
    with len have "length ?ks = 1"
      by simp
    then obtain k where k: "?ks = [k]"
      by (cases ?ks) auto
    then have "set ?ks = {k}"
      by simp
    then have "fst ` set by_minute = {k}"
      by simp
    with False len show ?thesis
      unfolding burn_rates_def Let_def tokens by simp
  qed
qed

lemma mono_minute_key_of: "mono minute_key_of"
  by (rule monoI) (simp add: minute_key_of_def zdiv_mono1)

text \<open>
  Claim C2, amended. Every session that \<open>get_current_session_data\<close> reports has at
  least one counted entry, and its token burn rate is the tokens of the counted entries
  divided by the number of calendar minutes from the minute of the earliest counted
  entry to the minute of the latest, both included; entries within one calendar minute
  give the divisor 1.
\<close>

theorem burn_rate_over_minute_span:
  assumes "current_session_of pricing_data f = Some session_data"
  shows "window_events_of f \<noteq> []
    \<and> total_tokens session_data = window_tokens (window_events_of f)
    \<and> realBurnRateTokens session_data
        = rat_of_int (window_tokens (window_events_of f))
          / rat_of_int (span_minutes (window_events_of f))"
proof -
  let ?s0 = "\<lparr>live_sessionId = session_dir_name f, live_total_cost = 0, total_tokens = 0,
             start_time = None, live_last_activity = None, file_modified = file_mtime f,
             tokens_by_minute = [], cost_by_minute = [], realBurnRateTokens = 0,
             realBurnRateCost = 0\<rparr>"
  from assms obtain ls s where ls: "recent_lines f = Some ls"
    and run: "live_lines pricing_data (utc_cutoff f) ls ?s0 = Inr s"
    and included: "total_tokens s > 0 \<or> live_total_cost s > 0"
    and sd: "session_data = s\<lparr>realBurnRateTokens :=
                 fst (burn_rates (tokens_by_minute s) (cost_by_minute s)),
               realBurnRateCost := snd (burn_rates (tokens_by_minute s) (cost_by_minute s))\<rparr>"
    by (auto simp: current_session_of_def Let_def case_prod_unfold
        split: option.splits sum.splits if_splits)
  let ?ev = "window_events (utc_cutoff f) ls"
  have "tokens_tracked ?s0 []"
    by (simp add: tokens_tracked_def window_tokens_def)
  from live_lines_tracked [OF this run] have tr: "tokens_tracked s ?ev"
    by simp
  then have d: "distinct (map fst (tokens_by_minute s))"
    and keys: "fst ` set (tokens_by_minute s) = minute_key_of ` fst ` set ?ev"
    and sums: "sum_list (map snd (tokens_by_minute s)) = window_tokens ?ev"
    and total: "total_tokens s = window_tokens ?ev"
    and idle: "?ev = [] \<longrightarrow> live_total_cost s = 0"
    by (simp_all add: tokens_tracked_def)
  from included total idle have ne: "?ev \<noteq> []"
    by (auto simp: window_tokens_def)
  with keys have tne: "tokens_by_minute s \<noteq> []"
    by auto
  have fin: "finite (fst ` set ?ev)" and ne': "fst ` set ?ev \<noteq> {}"
    using ne by simp_all
  have "Max (fst ` set (tokens_by_minute s)) = minute_key_of (Max (fst ` set ?ev))"
    and "Min (fst ` set (tokens_by_minute s)) = minute_key_of (Min (fst ` set ?ev))"
    unfolding keys
    using mono_Max_commute [OF mono_minute_key_of fin ne']
      mono_Min_commute [OF mono_minute_key_of fin ne']
    by simp_all
  then have "realBurnRateTokens session_data
      = rat_of_int (window_tokens ?ev) / rat_of_int (span_minutes ?ev)"
    by (simp add: sd burn_rate_tokens_span [OF d tne] sums span_minutes_def)
  with ne total show ?thesis
    by (simp add: window_events_of_def ls sd)
qed


definition live_event :: "int \<Rightarrow> int \<Rightarrow> live_line" where
  "live_event t n =
     Live_object
       \<lparr>live_time = Live_time t,
        live_usage =
          Usage \<lparr>input_tokens = n, output_tokens = 0, cache_creation_input_tokens = 0,
                 cache_read_input_tokens = 0\<rparr>,
        live_model = Some ''claude-example'', live_costUSD = Cost_absent\<rparr>"

definition five_minutes_apart :: recent_file where
  "five_minutes_apart =
     \<lparr>recent_lines = Some [live_event 0 100, live_event 300000000 400],
      session_dir_name = ''-home-user-demo'', file_mtime = 300000000, utc_cutoff = 0\<rparr>"

definition one_second_apart :: recent_file where
  "one_second_apart =
     \<lparr>recent_lines = Some [live_event 59000000 100, Live_blank, live_event 60000000 400],
      session_dir_name = ''-home-user-demo'', file_mtime = 60000000, utc_cutoff = 0\<rparr>"

lemmas live_eval =
  current_session_of_def live_line_step_def burn_rates_def live_entry_cost_def
  minute_key_of_def counted_tokens_def calculate_cost_from_tokens_def add_token_cost_def
  get_pricing_data_def example_pricing_def live_event_def Let_def

lemma five_minutes_apart_session:
  "current_session_of (get_pricing_data (Some example_pricing)) five_minutes_apart =
     Some \<lparr>live_sessionId = ''-home-user-demo'', live_total_cost = 1 / 2000, total_tokens = 500,
           start_time = Some 0, live_last_activity = Some 300000000, file_modified = 300000000,
           tokens_by_minute = [(0, 100), (5, 400)],
           cost_by_minute = [(0, 1 / 10000), (5, 1 / 2500)],
           realBurnRateTokens = 500 / 6, realBurnRateCost = 1 / 200\<rparr>"
  by (simp add: live_eval five_minutes_apart_def)

text \<open>
  Claim C2, as stated, fails on its own example: 100 tokens at \<open>t = 0\<close> and 400 tokens
  five minutes later give a rate of \<open>500 / 6\<close>, not \<open>500 / 5\<close>, because the span counts
  the six calendar minutes 0 to 5 (\<open>+ 1  # +1 for inclusive\<close> in the source).
\<close>

theorem burn_rate_five_minutes_counterexample:
  "map_option realBurnRateTokens
     (current_session_of (get_pricing_data (Some example_pricing)) five_minutes_apart)
     = Some (500 / 6)
   \<and> (500 / 6 :: rat) \<noteq> 500 / 5"
  by (simp add: five_minutes_apart_session)

lemma one_second_apart_session:
  "current_session_of (get_pricing_data (Some example_pricing)) one_second_apart =
     Some \<lparr>live_sessionId = ''-home-user-demo'', live_total_cost = 1 / 2000, total_tokens = 500,
           start_time = Some 59000000, live_last_activity = Some 60000000,
           file_modified = 60000000, tokens_by_minute = [(0, 100), (1, 400)],
           cost_by_minute = [(0, 1 / 10000), (1, 1 / 2500)],
           realBurnRateTokens = 250, realBurnRateCost = 3 / 200\<rparr>"
  by (simp add: live_eval one_second_apart_def)

theorem burn_rate_over_minute_span_witness:
  "window_events_of five_minutes_apart = [(0, 100), (300000000, 400)]
   \<and> span_minutes (window_events_of five_minutes_apart) = 6
   \<and> map_option realBurnRateTokens
        (current_session_of (get_pricing_data (Some example_pricing)) five_minutes_apart)
       = Some (500 / 6)
   \<and> window_events_of one_second_apart = [(59000000, 100), (60000000, 400)]
   \<and> span_minutes (window_events_of one_second_apart) = 2
   \<and> map_option realBurnRateTokens
        (current_session_of (get_pricing_data (Some example_pricing)) one_second_apart)
       = Some (500 / 2)"
proof -
  have ev5: "window_events_of five_minutes_apart = [(0, 100), (300000000, 400)]"
    and ev1: "window_events_of one_second_apart = [(59000000, 100), (60000000, 400)]"
    by (simp_all add: window_events_of_def five_minutes_apart_def one_second_apart_def
        live_event_def counted_tokens_def)
  have span5: "span_minutes [(0, 100), (300000000, 400)] = 6"
    and span1: "span_minutes [(59000000, 100), (60000000, 400)] = 2"
    by (simp_all add: span_minutes_def minute_key_of_def)
  from burn_rate_over_minute_span [OF five_minutes_apart_session]
    burn_rate_over_minute_span [OF one_second_apart_session]
  show ?thesis
    by (simp add: five_minutes_apart_session one_second_apart_session ev5 ev1 span5 span1)
qed

end
